theory Spec2Isabelle
  imports Main "HOL-Library.Word" "HOL-Library.AList"
begin

section \<open>Python values, dictionaries and exceptions\<close>

text \<open>
  The relying party in \<^verbatim>\<open>functions/federated_aws_rp/app.py\<close> keeps its whole session in
  a Python dictionary (the cookie store) and answers with API Gateway dictionaries.
  Values of those dictionaries are JSON-like Python values. A dictionary is an
  association list: Python keeps insertion order, an assignment to an existing key keeps
  the key's place and a new key goes to the end, which is what \<open>AList.update\<close> does.
\<close>

type_synonym byte = "8 word"

datatype val =
    VNone
  | VBool bool
  | VInt int
  | VStr string
  | VBytes "byte list"
  | VList "val list"
  | VDict "(string \<times> val) list"

type_synonym pydict = "(string \<times> val) list"

type_synonym store = pydict

text \<open>
  The exceptions the handlers can meet. \<open>AccessDenied\<close> is the repository's own
  (\<^verbatim>\<open>utils.AccessDenied\<close>); the others are Python's. \<open>BinasciiError\<close>,
  \<open>JSONDecodeError\<close> and \<open>UnicodeDecodeError\<close> are three different subclasses of
  \<open>ValueError\<close>: an \<^verbatim>\<open>except\<close> clause naming one of them does not catch the others.
\<close>

datatype exn =
    AccessDenied string
  | KeyError string
  | TypeError string
  | ValueError string
  | BinasciiError string
  | JSONDecodeError string
  | UnicodeDecodeError string
  | AttributeError string
  | OtherError string

fun is_AccessDenied :: "exn \<Rightarrow> bool" where
  "is_AccessDenied (AccessDenied m) = True"
| "is_AccessDenied e = False"

text \<open>\<^verbatim>\<open>str(e)\<close>: the message the exception carries.\<close>

fun exn_str :: "exn \<Rightarrow> string" where
  "exn_str (AccessDenied m) = m"
| "exn_str (KeyError m) = m"
| "exn_str (TypeError m) = m"
| "exn_str (ValueError m) = m"
| "exn_str (BinasciiError m) = m"
| "exn_str (JSONDecodeError m) = m"
| "exn_str (UnicodeDecodeError m) = m"
| "exn_str (AttributeError m) = m"
| "exn_str (OtherError m) = m"

text \<open>\<^verbatim>\<open>k in d\<close>, \<^verbatim>\<open>d.get(k)\<close>, \<^verbatim>\<open>d.get(k, default)\<close>, \<^verbatim>\<open>d[k]\<close>, \<^verbatim>\<open>d[k] = v\<close> and
  \<^verbatim>\<open>d.update(e)\<close> on a dictionary.\<close>

definition dict_contains :: "string \<Rightarrow> pydict \<Rightarrow> bool" where
  "dict_contains k d = (k \<in> set (map fst d))"

definition dict_get :: "pydict \<Rightarrow> string \<Rightarrow> val" where
  "dict_get d k = (case map_of d k of None \<Rightarrow> VNone | Some v \<Rightarrow> v)"

definition dict_get_default :: "pydict \<Rightarrow> string \<Rightarrow> val \<Rightarrow> val" where
  "dict_get_default d k dflt = (case map_of d k of None \<Rightarrow> dflt | Some v \<Rightarrow> v)"

definition dict_getitem :: "pydict \<Rightarrow> string \<Rightarrow> exn + val" where
  "dict_getitem d k = (case map_of d k of None \<Rightarrow> Inl (KeyError k) | Some v \<Rightarrow> Inr v)"

definition dict_set :: "pydict \<Rightarrow> string \<Rightarrow> val \<Rightarrow> pydict" where
  "dict_set d k v = AList.update k v d"

definition dict_update :: "pydict \<Rightarrow> pydict \<Rightarrow> pydict" where
  "dict_update d e = fold (\<lambda>kv acc. AList.update (fst kv) (snd kv) acc) e d"

text \<open>
  The same operators on an arbitrary Python value, as the handler applies them to the
  parsed request body, which is whatever JSON the client sent. \<^verbatim>\<open>k in v\<close> is key
  membership on a dictionary, substring search on a string, element membership on a
  list, and a \<open>TypeError\<close> on anything else; \<^verbatim>\<open>v[k]\<close> with a string key is defined on
  dictionaries only; \<^verbatim>\<open>v.get(k)\<close> exists on dictionaries only.
\<close>

fun is_substr :: "string \<Rightarrow> string \<Rightarrow> bool" where
  "is_substr k [] = (k = [])"
| "is_substr k (c # cs) = (take (length k) (c # cs) = k \<or> is_substr k cs)"

fun py_in :: "string \<Rightarrow> val \<Rightarrow> exn + bool" where
  "py_in k (VDict d) = Inr (dict_contains k d)"
| "py_in k (VStr s) = Inr (is_substr k s)"
| "py_in k (VList xs) = Inr (VStr k \<in> set xs)"
| "py_in k v = Inl (TypeError ''argument is not iterable'')"

fun py_getitem :: "val \<Rightarrow> string \<Rightarrow> exn + val" where
  "py_getitem (VDict d) k = dict_getitem d k"
| "py_getitem v k = Inl (TypeError ''indices must be integers or object is not subscriptable'')"

fun py_get :: "val \<Rightarrow> string \<Rightarrow> exn + val" where
  "py_get (VDict d) k = Inr (dict_get d k)"
| "py_get v k = Inl (AttributeError ''object has no attribute get'')"

text \<open>Truthiness, as \<^verbatim>\<open>if body:\<close> and \<^verbatim>\<open>if stored_vars:\<close> use it.\<close>

fun truthy :: "val \<Rightarrow> bool" where
  "truthy VNone = False"
| "truthy (VBool b) = b"
| "truthy (VInt n) = (n \<noteq> 0)"
| "truthy (VStr s) = (s \<noteq> [])"
| "truthy (VBytes bs) = (bs \<noteq> [])"
| "truthy (VList xs) = (xs \<noteq> [])"
| "truthy (VDict d) = (d \<noteq> [])"

section \<open>Configuration and collaborators\<close>

text \<open>
  \<^verbatim>\<open>app.py\<close> imports its configuration from \<^verbatim>\<open>.config\<close> and its helpers from
  \<^verbatim>\<open>.utils\<close>; neither module is among the sources. Both are parameters of the model:
  the record \<open>env\<close> has one field per imported name. A helper that talks to the identity
  provider, to AWS or validates a token can raise, so it returns \<open>exn + 'a\<close>; a helper that
  only transforms data returns its value. The standard-library functions whose result
  the handlers only pass on (\<^verbatim>\<open>hashlib.sha256\<close>, \<^verbatim>\<open>json.loads\<close>,
  \<^verbatim>\<open>urllib.parse.urlparse\<close> and \<^verbatim>\<open>urlunparse\<close>, \<^verbatim>\<open>int\<close> on a string, \<^verbatim>\<open>mimetypes.guess_type\<close>) are
  parameters as well.
\<close>

record config =
  oidc_scope :: string
  redirect_uri :: string
  client_id :: string
  cookie_name :: string
  default_session_duration :: val

record discovery_document =
  authorization_endpoint :: string
  token_endpoint :: string
  jwks :: val

record parse_result =
  scheme :: string
  netloc :: string
  url_path :: string
  params :: string
  query :: string
  fragment :: string

record env =
  CONFIG :: config
  base64_without_padding :: "byte list \<Rightarrow> string"
  convert_account_alias :: "val \<Rightarrow> val \<Rightarrow> val \<Rightarrow> exn + val"
  encode_cookie_value :: "store \<Rightarrow> string"
  get_aws_federation_url :: "val \<Rightarrow> store \<Rightarrow> exn + string"
  get_destination_url :: "string \<Rightarrow> val"
  get_discovery_document :: "exn + discovery_document"
  get_role_arn :: "(string \<times> string) list \<Rightarrow> val"
  get_roles :: "val \<Rightarrow> val \<Rightarrow> exn + val"
  get_store :: "string \<Rightarrow> store"
  get_email_or_username :: "val \<Rightarrow> val \<Rightarrow> exn + string"
  login :: "val \<Rightarrow> val \<Rightarrow> val \<Rightarrow> val \<Rightarrow> string \<Rightarrow> exn + string"
  read_resource :: "string \<Rightarrow> val"
  return_api_gateway_json :: "store option \<Rightarrow> val option \<Rightarrow> pydict"
  trigger_group_role_map_rebuild :: "val \<Rightarrow> val \<Rightarrow> exn + val"
  sha256 :: "byte list \<Rightarrow> byte list"
  json_loads :: "byte list \<Rightarrow> exn + val"
  urlparse :: "string \<Rightarrow> parse_result"
  urlunparse :: "parse_result \<Rightarrow> string"
  int_of_str :: "string \<Rightarrow> int option"
  guess_type :: "string \<Rightarrow> val"

section \<open>The handlers\<close>

text \<open>
  A handler that mutates the cookie store returns the store as it is when the handler
  returns or raises, next to what it returns (\<open>Inr\<close> the API Gateway dictionary) or
  raises (\<open>Inl\<close> the exception). Logging is left out; a call made only to build a log
  line is kept, because it can raise.
\<close>

subsection \<open>\<^verbatim>\<open>pick_role\<close>, POST /api/roles\<close>

definition access_denied_value :: val where
  "access_denied_value = VDict [(''message'', VStr ''Access denied'')]"

definition pick_role :: "env \<Rightarrow> store \<Rightarrow> store \<times> (exn + pydict)" where
  "pick_role env store =
    (case get_discovery_document env of
       Inl e \<Rightarrow> (store, Inl e)
     | Inr discovery_document \<Rightarrow>
        (case get_aws_federation_url env (jwks discovery_document) store of
           Inr aws_federation_url \<Rightarrow>
             (let store1 = dict_set store ''client_workflow_state'' (VStr ''aws_federate'');
                  store2 = dict_set store1 ''client_workflow_value''
                             (VDict [(''awsFederationUrl'', VStr aws_federation_url)])
              in (store2, Inr (return_api_gateway_json env (Some store2) None)))
         | Inl e \<Rightarrow>
             (if is_AccessDenied e then
                (let store1 = dict_set store ''client_workflow_state'' (VStr ''error'');
                     store2 = dict_set store1 ''client_workflow_value'' access_denied_value
                 in (store2, Inr (return_api_gateway_json env (Some store2) None)))
              else (store, Inl e))))"

subsection \<open>\<^verbatim>\<open>handle_oidc_redirect_callback\<close>, /redirect_callback\<close>

text \<open>The four \<^verbatim>\<open>body.get(...)\<close> arguments of the call of \<^verbatim>\<open>login\<close>.\<close>

definition login_args :: "val \<Rightarrow> exn + (val \<times> val \<times> val \<times> val)" where
  "login_args body =
    (case py_get body ''state'' of Inl e \<Rightarrow> Inl e | Inr st \<Rightarrow>
      (case py_get body ''code'' of Inl e \<Rightarrow> Inl e | Inr code \<Rightarrow>
        (case py_get body ''error'' of Inl e \<Rightarrow> Inl e | Inr err \<Rightarrow>
          (case py_get body ''error_description'' of Inl e \<Rightarrow> Inl e | Inr descr \<Rightarrow>
             Inr (st, code, err, descr)))))"

text \<open>Lines 95 to 104: the \<^verbatim>\<open>try\<close> block around \<^verbatim>\<open>login\<close>.\<close>

definition try_login :: "env \<Rightarrow> string \<Rightarrow> val \<Rightarrow> exn + string" where
  "try_login env cookie_header body =
    (case login_args body of
       Inl e \<Rightarrow> Inl e
     | Inr (st, code, err, descr) \<Rightarrow> login env st code err descr cookie_header)"

text \<open>Lines 113 to 124: the action \<^verbatim>\<open>aws-web-console\<close>.\<close>

definition callback_aws_web_console ::
    "env \<Rightarrow> discovery_document \<Rightarrow> store \<Rightarrow> string \<Rightarrow> store \<times> (exn + pydict)" where
  "callback_aws_web_console env discovery_document store source_ip =
    (if dict_contains ''role_arn'' store then
       (case convert_account_alias env (dict_get store ''role_arn'') (dict_get store ''id_token'')
               (dict_get_default store ''cache'' (VBool True)) of
          Inl e \<Rightarrow> (store, Inl e)
        | Inr arn \<Rightarrow>
           (let store1 = dict_set store ''role_arn'' arn;
                (store2, result) = pick_role env store1
            in case result of
                 Inl e \<Rightarrow> (store2, Inl e)
               | Inr r \<Rightarrow>
                  (case get_email_or_username env (jwks discovery_document)
                          (dict_get store2 ''id_token'') of
                     Inl e \<Rightarrow> (store2, Inl e)
                   | Inr who \<Rightarrow> (store2, Inr r))))
     else
       (let store1 = dict_set store ''client_workflow_state'' (VStr ''role_picker'')
        in (store1, Inr (return_api_gateway_json env (Some store1) None))))"

text \<open>Lines 125 to 143: the action \<^verbatim>\<open>rebuild-group-role-map\<close>.\<close>

definition callback_rebuild ::
    "env \<Rightarrow> discovery_document \<Rightarrow> store \<Rightarrow> string \<Rightarrow> store \<times> (exn + pydict)" where
  "callback_rebuild env discovery_document store source_ip =
    (let store1 = dict_set store ''client_workflow_state'' (VStr ''info'');
         store2 = dict_set store1 ''client_workflow_value''
                    (VDict [(''message'', VStr ''Processing rebuild...'')])
     in case trigger_group_role_map_rebuild env (jwks discovery_document)
               (dict_get store2 ''id_token'') of
          Inl e \<Rightarrow>
            (if is_AccessDenied e then
               (let store3 = dict_set store2 ''client_workflow_state'' (VStr ''error'');
                    store4 = dict_set store3 ''client_workflow_value'' access_denied_value
                in (store4, Inr (return_api_gateway_json env (Some store4) None)))
             else (store2, Inl e))
        | Inr result \<Rightarrow>
            (case get_email_or_username env (jwks discovery_document)
                    (dict_get store2 ''id_token'') of
               Inl e \<Rightarrow> (store2, Inl e)
             | Inr who \<Rightarrow>
                (let store3 = dict_set store2 ''client_workflow_state'' (VStr ''info'');
                     store4 = dict_set store3 ''client_workflow_value''
                                (VDict [(''message'', VStr ''Group Role Map rebuild initiated'')])
                 in (store4, Inr (return_api_gateway_json env (Some store4) None)))))"

definition handle_oidc_redirect_callback ::
    "env \<Rightarrow> string \<Rightarrow> val \<Rightarrow> string \<Rightarrow> store \<times> (exn + pydict)" where
  "handle_oidc_redirect_callback env cookie_header body source_ip =
    (let store = get_store env cookie_header in
     (case get_discovery_document env of
       Inl e \<Rightarrow> (store, Inl e)
     | Inr discovery_document \<Rightarrow>
        (case try_login env cookie_header body of
           Inl e \<Rightarrow>
             (if is_AccessDenied e then
                (let store1 = dict_set store ''client_workflow_state'' (VStr ''error'');
                     store2 = dict_set store1 ''client_workflow_value'' access_denied_value
                 in (store2, Inr (return_api_gateway_json env (Some store2) None)))
              else (store, Inl e))
         | Inr id_token \<Rightarrow>
             (let store1 = dict_set store ''id_token'' (VStr id_token) in
              if dict_get store1 ''action'' = VStr ''aws-web-console'' then
                callback_aws_web_console env discovery_document store1 source_ip
              else if dict_get store1 ''action'' = VStr ''rebuild-group-role-map'' then
                callback_rebuild env discovery_document store1 source_ip
              else
                (let store2 = dict_set store1 ''client_workflow_state'' (VStr ''error'');
                     store3 = dict_set store2 ''client_workflow_value''
                                (VDict [(''message'', VStr ''Invalid action argument'')])
                 in (store3, Inr (return_api_gateway_json env (Some store3) None)))))))"

subsection \<open>\<^verbatim>\<open>get_state\<close>, GET /api/state\<close>

definition get_state :: "env \<Rightarrow> store \<Rightarrow> store \<times> pydict" where
  "get_state env store =
    (store, return_api_gateway_json env None
       (Some (VDict [(''state'', dict_get store ''client_workflow_state''),
                     (''value'', dict_get store ''client_workflow_value'')])))"

section \<open>Standard-library functions the handlers compute with\<close>

subsection \<open>Base64\<close>

definition b64_std_alphabet :: string where
  "b64_std_alphabet = ''ABCDEFGHIJKLMNOPQRSTUVWXYZabcdefghijklmnopqrstuvwxyz0123456789+/''"

definition b64_url_alphabet :: string where
  "b64_url_alphabet = ''ABCDEFGHIJKLMNOPQRSTUVWXYZabcdefghijklmnopqrstuvwxyz0123456789-_''"

text \<open>Encoding with padding over a 64-character alphabet, three bytes to four characters.\<close>

fun b64_groups :: "string \<Rightarrow> byte list \<Rightarrow> string" where
  "b64_groups al (a # b # c # rest) =
     [al ! (unat a div 4), al ! ((unat a mod 4) * 16 + unat b div 16),
      al ! ((unat b mod 16) * 4 + unat c div 64), al ! (unat c mod 64)] @ b64_groups al rest"
| "b64_groups al [a, b] =
     [al ! (unat a div 4), al ! ((unat a mod 4) * 16 + unat b div 16),
      al ! ((unat b mod 16) * 4), CHR ''='']"
| "b64_groups al [a] =
     [al ! (unat a div 4), al ! ((unat a mod 4) * 16), CHR ''='', CHR ''='']"
| "b64_groups al [] = []"

definition str_encode :: "string \<Rightarrow> byte list" where
  "str_encode s = map (\<lambda>c. word_of_nat (of_char c)) s"

text \<open>\<^verbatim>\<open>base64.b64encode(body)\<close>, bytes to bytes.\<close>

definition b64encode :: "byte list \<Rightarrow> byte list" where
  "b64encode bs = str_encode (b64_groups b64_std_alphabet bs)"

fun index_of :: "'a \<Rightarrow> 'a list \<Rightarrow> nat option" where
  "index_of x [] = None"
| "index_of x (y # ys) = (if x = y then Some 0 else map_option Suc (index_of x ys))"

text \<open>
  \<^verbatim>\<open>binascii.a2b_base64\<close> in its default, non-strict mode, which is what
  \<^verbatim>\<open>base64.b64decode(s)\<close> calls: characters outside the alphabet are skipped, a
  complete pad sequence ends the input, and data characters left over at the end of
  the input raise \<^verbatim>\<open>binascii.Error\<close>. The state is CPython's: the position in the
  current group of four, the bits left over, and the pad characters seen.
\<close>

fun a2b_base64 :: "string \<Rightarrow> nat \<Rightarrow> nat \<Rightarrow> nat \<Rightarrow> byte list \<Rightarrow> exn + byte list" where
  "a2b_base64 [] quad_pos leftchar pads out =
     (if quad_pos \<noteq> 0 then
        (if quad_pos = 1 then
           Inl (BinasciiError ''Invalid base64-encoded string: number of data characters cannot be 1 more than a multiple of 4'')
         else Inl (BinasciiError ''Incorrect padding''))
      else Inr out)"
| "a2b_base64 (c # cs) quad_pos leftchar pads out =
     (if c = CHR ''='' then
        (if 2 \<le> quad_pos \<and> 4 \<le> quad_pos + (pads + 1) then Inr out
         else a2b_base64 cs quad_pos leftchar (if 2 \<le> quad_pos then pads + 1 else pads) out)
      else
        (case index_of c b64_std_alphabet of
           None \<Rightarrow> a2b_base64 cs quad_pos leftchar pads out
         | Some this_ch \<Rightarrow>
            (if quad_pos = 0 then a2b_base64 cs 1 this_ch 0 out
             else if quad_pos = 1 then
               a2b_base64 cs 2 (this_ch mod 16) 0 (out @ [word_of_nat (leftchar * 4 + this_ch div 16)])
             else if quad_pos = 2 then
               a2b_base64 cs 3 (this_ch mod 4) 0 (out @ [word_of_nat (leftchar * 16 + this_ch div 4)])
             else a2b_base64 cs 0 0 0 (out @ [word_of_nat (leftchar * 64 + this_ch)]))))"

definition is_ascii :: "string \<Rightarrow> bool" where
  "is_ascii s = list_all (\<lambda>c. (of_char c :: nat) < 128) s"

definition bytes_decode_latin :: "byte list \<Rightarrow> string" where
  "bytes_decode_latin bs = map (\<lambda>b. char_of (unat b)) bs"

text \<open>
  \<^verbatim>\<open>base64.b64decode(s)\<close>: a string must be ASCII (\<open>ValueError\<close> otherwise), bytes are
  taken as they are, anything else (\<^verbatim>\<open>None\<close> for a request without a body) is a
  \<open>TypeError\<close>.
\<close>

fun b64decode :: "val \<Rightarrow> exn + byte list" where
  "b64decode (VStr s) =
     (if is_ascii s then a2b_base64 s 0 0 0 []
      else Inl (ValueError ''string argument should contain only ASCII characters''))"
| "b64decode (VBytes bs) = a2b_base64 (bytes_decode_latin bs) 0 0 0 []"
| "b64decode v = Inl (TypeError ''argument should be a bytes-like object or ASCII string'')"

subsection \<open>Query strings\<close>

definition always_safe :: string where
  "always_safe = ''ABCDEFGHIJKLMNOPQRSTUVWXYZabcdefghijklmnopqrstuvwxyz0123456789_.-~''"

definition hex_digit :: "nat \<Rightarrow> char" where
  "hex_digit n = ''0123456789ABCDEF'' ! n"

text \<open>\<^verbatim>\<open>urllib.parse.quote_plus\<close> on a string, byte by byte of its UTF-8 encoding.\<close>

definition quote_char :: "char \<Rightarrow> string" where
  "quote_char c =
     (if c \<in> set always_safe then [c]
      else if c = CHR '' '' then ''+''
      else [CHR ''%'', hex_digit (of_char c div 16), hex_digit (of_char c mod 16)])"

definition quote_plus :: "string \<Rightarrow> string" where
  "quote_plus s = concat (map quote_char s)"

fun join :: "string \<Rightarrow> string list \<Rightarrow> string" where
  "join sep [] = []"
| "join sep [x] = x"
| "join sep (x # y # ys) = x @ sep @ join sep (y # ys)"

text \<open>\<^verbatim>\<open>urllib.parse.urlencode\<close> on a dictionary of strings.\<close>

definition urlencode :: "(string \<times> string) list \<Rightarrow> string" where
  "urlencode ps = join ''&'' (map (\<lambda>kv. quote_plus (fst kv) @ ''='' @ quote_plus (snd kv)) ps)"

subsection \<open>Strings, integers and randomness\<close>

text \<open>
  \<^verbatim>\<open>str.lower\<close> on the ASCII letters. Python also lowers letters outside ASCII, but
  the only use here compares the result with \<^verbatim>\<open>'true'\<close>, and no character outside
  ASCII lowers to one of t, r, u, e.
\<close>

definition lower_char :: "char \<Rightarrow> char" where
  "lower_char c =
     (let n = (of_char c :: nat) in if 65 \<le> n \<and> n \<le> 90 then char_of (n + 32) else c)"

definition lower :: "string \<Rightarrow> string" where
  "lower s = map lower_char s"

text \<open>\<^verbatim>\<open>s.split(',')[0]\<close>.\<close>

definition split_comma_first :: "string \<Rightarrow> string" where
  "split_comma_first s = takeWhile (\<lambda>c. c \<noteq> CHR '','') s"

text \<open>\<^verbatim>\<open>int(v)\<close>: an integer is itself, a string is parsed (a \<open>ValueError\<close> when it is
  not a number), \<^verbatim>\<open>None\<close> and containers are a \<open>TypeError\<close>.\<close>

fun py_int :: "env \<Rightarrow> val \<Rightarrow> exn + int" where
  "py_int env (VInt n) = Inr n"
| "py_int env (VBool b) = Inr (if b then 1 else 0)"
| "py_int env (VStr s) =
     (case int_of_str env s of
        None \<Rightarrow> Inl (ValueError ''invalid literal for int() with base 10'')
      | Some n \<Rightarrow> Inr n)"
| "py_int env v = Inl (TypeError ''int() argument must be a string, a bytes-like object or a real number'')"

text \<open>
  \<^verbatim>\<open>os.urandom(n)\<close>: the operating system's randomness is a stream of bytes given
  to the handler; a call takes the next \<open>n\<close> bytes and leaves the rest.
\<close>

type_synonym entropy = "nat \<Rightarrow> byte"

definition os_urandom :: "nat \<Rightarrow> entropy \<Rightarrow> byte list \<times> entropy" where
  "os_urandom n rnd = (map rnd [0..<n], \<lambda>i. rnd (n + i))"

section \<open>Starting the flow and dispatching requests\<close>

subsection \<open>\<^verbatim>\<open>redirect_to_idp\<close>, /\<close>

text \<open>The value of the \<^verbatim>\<open>Set-Cookie\<close> header, lines 243 to 246 and 316 to 320: the
  cookie's name, the encoded store, and the attributes of the flow stage.\<close>

definition set_cookie :: "env \<Rightarrow> store \<Rightarrow> string \<Rightarrow> string" where
  "set_cookie env store attributes =
     cookie_name (CONFIG env) @ ''='' @ encode_cookie_value env store @ attributes"

text \<open>Lines 199 to 215: the verifier, the challenge, the state and the cookie store.\<close>

definition code_verifier_of :: "env \<Rightarrow> entropy \<Rightarrow> string" where
  "code_verifier_of env rnd = base64_without_padding env (fst (os_urandom 32 rnd))"

definition code_challenge_of :: "env \<Rightarrow> entropy \<Rightarrow> string" where
  "code_challenge_of env rnd =
     base64_without_padding env (sha256 env (str_encode (code_verifier_of env rnd)))"

definition oidc_state_of :: "env \<Rightarrow> entropy \<Rightarrow> string" where
  "oidc_state_of env rnd =
     ''1-'' @ base64_without_padding env (fst (os_urandom 32 (snd (os_urandom 32 rnd))))"

definition start_store ::
    "env \<Rightarrow> entropy \<Rightarrow> string \<Rightarrow> pydict option \<Rightarrow> int option \<Rightarrow> bool \<Rightarrow> store" where
  "start_store env rnd action stored_vars session_duration cache =
    (let store =
       [(''action'', VStr action),
        (''oidc_state'', VStr (oidc_state_of env rnd)),
        (''code_verifier'', VStr (code_verifier_of env rnd)),
        (''session_duration'', (case session_duration of None \<Rightarrow> VNone | Some n \<Rightarrow> VInt n)),
        (''cache'', VBool cache),
        (''client_workflow_state'', VNone),
        (''client_workflow_value'', VNone)]
     in case stored_vars of
          None \<Rightarrow> store
        | Some sv \<Rightarrow> if sv \<noteq> [] then dict_update store sv else store)"

text \<open>Lines 217 to 225: the parameters of the authorization request.\<close>

definition url_parameters :: "env \<Rightarrow> entropy \<Rightarrow> (string \<times> string) list" where
  "url_parameters env rnd =
     [(''scope'', oidc_scope (CONFIG env)),
      (''response_type'', ''code''),
      (''redirect_uri'', redirect_uri (CONFIG env)),
      (''client_id'', client_id (CONFIG env)),
      (''code_challenge'', code_challenge_of env rnd),
      (''code_challenge_method'', ''S256''),
      (''state'', oidc_state_of env rnd)]"

definition redirect_to_idp ::
    "env \<Rightarrow> entropy \<Rightarrow> string \<Rightarrow> pydict option \<Rightarrow> int option \<Rightarrow> bool \<Rightarrow> exn + pydict" where
  "redirect_to_idp env rnd action stored_vars session_duration cache =
    (case get_discovery_document env of
       Inl e \<Rightarrow> Inl e
     | Inr discovery_document \<Rightarrow>
        (let store = start_store env rnd action stored_vars session_duration cache;
             auth_endpoint = urlparse env (authorization_endpoint discovery_document);
             redirect_url_tuple = auth_endpoint\<lparr>query := urlencode (url_parameters env rnd)\<rparr>;
             redirect_url = urlunparse env redirect_url_tuple
         in Inr [(''statusCode'', VInt 302),
                 (''headers'', VDict
                    [(''Location'', VStr redirect_url),
                     (''Content-Type'', VStr ''text/html''),
                     (''Cache-Control'', VStr ''max-age=0''),
                     (''Set-Cookie'', VStr (set_cookie env store
                        ''; Secure; SameSite=Lax; HttpOnly; Path=/; Max-Age=3600''))]),
                 (''body'', VStr ''Redirecting to identity provider'')]))"

subsection \<open>\<^verbatim>\<open>lambda_handler\<close>\<close>

text \<open>
  The API Gateway event. \<^verbatim>\<open>headers\<close> and \<^verbatim>\<open>queryStringParameters\<close> are a
  dictionary of strings or \<^verbatim>\<open>null\<close>; \<^verbatim>\<open>body\<close> is read with
  \<^verbatim>\<open>event.get('body', '')\<close>, so the key may be missing (\<open>None\<close>) or hold any value,
  \<^verbatim>\<open>null\<close> included.
\<close>

record event =
  ev_path :: string
  ev_httpMethod :: string
  ev_headers :: "(string \<times> string) list option"
  ev_queryStringParameters :: "(string \<times> string) list option"
  ev_body :: "val option"

definition str_get_default :: "(string \<times> string) list \<Rightarrow> string \<Rightarrow> string \<Rightarrow> string" where
  "str_get_default d k dflt = (case map_of d k of None \<Rightarrow> dflt | Some v \<Rightarrow> v)"

fun catches_parse_error :: "exn \<Rightarrow> bool" where
  "catches_parse_error (JSONDecodeError m) = True"
| "catches_parse_error (TypeError m) = True"
| "catches_parse_error e = False"

text \<open>Lines 276 to 283: decoding and parsing the request body.\<close>

definition parse_body :: "env \<Rightarrow> val option \<Rightarrow> exn + val" where
  "parse_body env body =
    (case (case b64decode (case body of None \<Rightarrow> VStr [] | Some v \<Rightarrow> v) of
             Inl e \<Rightarrow> Inl e
           | Inr decoded_body \<Rightarrow> json_loads env decoded_body) of
       Inr parsed_body \<Rightarrow> Inr parsed_body
     | Inl e \<Rightarrow>
        (if catches_parse_error e then
           Inr (VDict [(''error'', VStr ''Unable to parse POST data''),
                       (''body'', (case body of None \<Rightarrow> VNone | Some v \<Rightarrow> v)),
                       (''exception'', VStr (exn_str e))])
         else Inl e))"

definition response_403 :: pydict where
  "response_403 =
     [(''headers'', VDict [(''Content-Type'', VStr ''text/html'')]),
      (''statusCode'', VInt 403),
      (''body'', VStr ''Invalid POST data'')]"

definition response_404 :: pydict where
  "response_404 =
     [(''headers'', VDict [(''Content-Type'', VStr ''text/html'')]),
      (''statusCode'', VInt 404),
      (''body'', VStr ''Not Found'')]"

definition response_405 :: pydict where
  "response_405 =
     [(''headers'', VDict [(''Content-Type'', VStr ''text/html'')]),
      (''statusCode'', VInt 405),
      (''body'', VStr ''Method not allowed'')]"

definition response_500 :: pydict where
  "response_500 =
     [(''headers'', VDict [(''Content-Type'', VStr ''text/html'')]),
      (''statusCode'', VInt 500),
      (''body'', VStr ''Error'')]"

text \<open>Lines 285 to 307: the path \<^verbatim>\<open>/\<close>.\<close>

definition start_stored_vars :: "env \<Rightarrow> string \<Rightarrow> (string \<times> string) list \<Rightarrow> pydict" where
  "start_stored_vars env referer query_string_parameters =
    (let stored_vars = [(''destination_url'', get_destination_url env referer)];
         role_arn = get_role_arn env query_string_parameters;
         stored_vars1 = (if role_arn \<noteq> VNone then dict_set stored_vars ''role_arn'' role_arn
                         else stored_vars);
         stored_vars2 = (case map_of query_string_parameters ''role'' of
                           None \<Rightarrow> stored_vars1
                         | Some r \<Rightarrow> dict_set stored_vars1 ''role_name'' (VStr r))
     in case map_of query_string_parameters ''account'' of
          None \<Rightarrow> stored_vars2
        | Some a \<Rightarrow> dict_set stored_vars2 ''role_account_alias'' (VStr a))"

definition start_cache :: "(string \<times> string) list \<Rightarrow> bool" where
  "start_cache query_string_parameters =
     (lower (str_get_default query_string_parameters ''cache'' ''true'') = ''true'')"

definition handle_start ::
    "env \<Rightarrow> entropy \<Rightarrow> string \<Rightarrow> (string \<times> string) list \<Rightarrow> exn + pydict" where
  "handle_start env rnd referer query_string_parameters =
    (let stored_vars = start_stored_vars env referer query_string_parameters in
     (case py_int env (case map_of query_string_parameters ''session_duration'' of
                         None \<Rightarrow> default_session_duration (CONFIG env)
                       | Some s \<Rightarrow> VStr s) of
        Inl e \<Rightarrow> Inl e
      | Inr session_duration \<Rightarrow>
         (let action = str_get_default query_string_parameters ''action'' ''aws-web-console'';
              cache = start_cache query_string_parameters
          in redirect_to_idp env rnd action (Some stored_vars) (Some session_duration) cache)))"

text \<open>Lines 326 to 356: the path \<^verbatim>\<open>/api/roles\<close>.\<close>

definition handle_get_roles :: "env \<Rightarrow> store \<Rightarrow> store \<times> (exn + pydict)" where
  "handle_get_roles env store =
    (case dict_getitem store ''id_token'' of
       Inl e \<Rightarrow> (store, Inl e)
     | Inr id_token \<Rightarrow>
        (case get_roles env id_token (dict_get_default store ''cache'' (VBool True)) of
           Inl e \<Rightarrow> (store, Inl e)
         | Inr roles \<Rightarrow>
            (let store1 = dict_set store ''client_workflow_state'' (VStr ''awaiting_role'')
             in (store1, Inr (return_api_gateway_json env (Some store1) (Some roles))))))"

text \<open>The dictionary literal of line 341, its values read in the order written.\<close>

definition role_selection :: "val \<Rightarrow> exn + pydict" where
  "role_selection parsed_body =
    (case py_getitem parsed_body ''alias'' of Inl e \<Rightarrow> Inl e | Inr alias \<Rightarrow>
      (case py_getitem parsed_body ''arn'' of Inl e \<Rightarrow> Inl e | Inr arn \<Rightarrow>
        (case py_getitem parsed_body ''role'' of Inl e \<Rightarrow> Inl e | Inr role \<Rightarrow>
           Inr [(''role_account_alias'', alias), (''role_arn'', arn), (''role_name'', role)])))"

text \<open>The test of line 332; \<^verbatim>\<open>or\<close> does not evaluate its second operand when the
  first is true.\<close>

definition invalid_post_data :: "val \<Rightarrow> exn + bool" where
  "invalid_post_data parsed_body =
    (case py_in ''error'' parsed_body of
       Inl e \<Rightarrow> Inl e
     | Inr has_error \<Rightarrow>
        (if has_error then Inr True
         else (case py_in ''arn'' parsed_body of
                 Inl e \<Rightarrow> Inl e
               | Inr has_arn \<Rightarrow> Inr (\<not> has_arn))))"

definition handle_post_roles ::
    "env \<Rightarrow> discovery_document \<Rightarrow> store \<Rightarrow> val \<Rightarrow> string \<Rightarrow> store \<times> (exn + pydict)" where
  "handle_post_roles env discovery_document store parsed_body source_ip =
    (case invalid_post_data parsed_body of
       Inl e \<Rightarrow> (store, Inl e)
     | Inr invalid \<Rightarrow>
        (if invalid then (store, Inr response_403)
         else
          (case role_selection parsed_body of
             Inl e \<Rightarrow> (store, Inl e)
           | Inr selection \<Rightarrow>
              (let store1 = dict_update store selection;
                   (store2, result) = pick_role env store1
               in (case result of
                     Inl e \<Rightarrow> (store2, Inl e)
                   | Inr r \<Rightarrow>
                      (case get_email_or_username env (jwks discovery_document)
                              (dict_get store2 ''id_token'') of
                         Inl e \<Rightarrow> (store2, Inl e)
                       | Inr who \<Rightarrow> (store2, Inr r)))))))"

text \<open>Lines 366 to 392: a static resource, or 404.\<close>

definition handle_static :: "env \<Rightarrow> string \<Rightarrow> pydict" where
  "handle_static env path =
    (let body = read_resource env path in
     if truthy body then
       (let content_type = guess_type env path;
            is_base64_encoded = (case body of VBytes bs \<Rightarrow> True | _ \<Rightarrow> False)
        in [(''headers'', VDict [(''Content-Type'', content_type)]),
            (''statusCode'', VInt 200),
            (''isBase64Encoded'', VBool is_base64_encoded),
            (''body'', (case body of VBytes bs \<Rightarrow> VBytes (b64encode bs) | _ \<Rightarrow> body))])
     else response_404)"

text \<open>Lines 285 to 392: the body of the \<^verbatim>\<open>try\<close> block, one branch for each path.\<close>

definition dispatch ::
    "env \<Rightarrow> entropy \<Rightarrow> discovery_document \<Rightarrow> store \<Rightarrow> string \<Rightarrow> string \<Rightarrow> string \<Rightarrow> string \<Rightarrow>
     string \<Rightarrow> (string \<times> string) list \<Rightarrow> val \<Rightarrow> store \<times> (exn + pydict)" where
  "dispatch env rnd discovery_document store path method cookie_header referer source_ip
       query_string_parameters parsed_body =
    (if path = ''/'' then (store, handle_start env rnd referer query_string_parameters)
     else if path = ''/redirect_uri'' then
       (let store1 = dict_set store ''client_workflow_state'' (VStr ''redirecting'');
            body = read_resource env ''/index.html''
        in (store1, Inr
             [(''statusCode'', VInt 200),
              (''headers'', VDict
                 [(''Content-Type'', VStr ''text/html''),
                  (''Set-Cookie'', VStr (set_cookie env store1
                     ''; Secure; HttpOnly; Path=/; Max-Age=3600; SameSite=strict''))]),
              (''body'', body)]))
     else if path = ''/redirect_callback'' \<and> method = ''POST'' then
       (store, snd (handle_oidc_redirect_callback env cookie_header parsed_body source_ip))
     else if path = ''/api/roles'' then
       (if method = ''GET'' then handle_get_roles env store
        else if method = ''POST'' then
          handle_post_roles env discovery_document store parsed_body source_ip
        else (store, Inr response_405))
     else if path = ''/api/state'' then
       (let (store1, r) = get_state env store in (store1, Inr r))
     else if path = ''/api/heartbeat'' then
       (store, Inr (return_api_gateway_json env (Some store)
                      (Some (VDict [(''result'', VStr ''running'')]))))
     else if path = ''/shutdown'' then
       (let store1 = dict_set store ''client_workflow_state'' (VStr ''finished'')
        in (store1, Inr (return_api_gateway_json env (Some store1) None)))
     else (store, Inr (handle_static env path)))"

text \<open>
  The handler. The store it returns is its own variable \<^verbatim>\<open>store\<close>, the session decoded
  from the request's cookie with the assignments made to it; the callback and the start
  of the flow work on dictionaries of their own. Reading the discovery document and
  parsing the body come before the \<^verbatim>\<open>try\<close> block of line 284: what they raise leaves
  the handler. Every exception of the dispatch is answered with the response 500.
\<close>

definition lambda_handler :: "env \<Rightarrow> entropy \<Rightarrow> event \<Rightarrow> store \<times> (exn + pydict)" where
  "lambda_handler env rnd event =
    (let path = ev_path event;
         headers = (case ev_headers event of None \<Rightarrow> [] | Some h \<Rightarrow> h);
         source_ip = split_comma_first (str_get_default headers ''X-Forwarded-For'' ''unknown'');
         cookie_header = str_get_default headers ''Cookie'' [];
         store = get_store env cookie_header;
         referer = str_get_default headers ''Referer'' [];
         method = ev_httpMethod event;
         query_string_parameters =
           (case ev_queryStringParameters event of None \<Rightarrow> [] | Some q \<Rightarrow> q)
     in (case get_discovery_document env of
           Inl e \<Rightarrow> (store, Inl e)
         | Inr discovery_document \<Rightarrow>
            (case parse_body env (ev_body event) of
               Inl e \<Rightarrow> (store, Inl e)
             | Inr parsed_body \<Rightarrow>
                (case dispatch env rnd discovery_document store path method cookie_header
                        referer source_ip query_string_parameters parsed_body of
                   (store1, Inl e) \<Rightarrow> (store1, Inr response_500)
                 | (store1, Inr r) \<Rightarrow> (store1, Inr r)))))"

section \<open>Helpers described by the specification\<close>


text \<open>
  Modelled from the spec: \<^verbatim>\<open>utils.base64_without_padding\<close> is not among the sources.
  Section 4.2 of the specification describes its result as "base64url-encoded without
  padding": the URL-safe alphabet of RFC 4648, the trailing pad characters removed.
\<close>

definition base64url_nopad :: "byte list \<Rightarrow> string" where
  "base64url_nopad bs =
     rev (dropWhile (\<lambda>c. c = CHR ''='') (rev (b64_groups b64_url_alphabet bs)))"

text \<open>
  Modelled from the spec: \<^verbatim>\<open>utils.login\<close> is not among the sources. Section 4.4 of the
  specification: it fails with \<open>AccessDenied\<close> if the error parameter is present, or if
  the state does not exactly match the session's \<^verbatim>\<open>oidc_state\<close>, or if the code is
  absent; otherwise it calls the identity provider's token endpoint with the code and
  the session's code verifier and validates the returned ID token, failing with
  \<open>AccessDenied\<close> on any non-success response and on any validation failure, and returns
  the raw token. The session is decoded from the cookie header (\<open>decode\<close>); the call of
  the token endpoint with the validation of its answer is \<open>exchange\<close>, \<open>None\<close> when
  either fails. A parameter of the callback that is missing arrives as \<^verbatim>\<open>None\<close>.
\<close>

definition login_spec ::
    "(string \<Rightarrow> store) \<Rightarrow> (val \<Rightarrow> val \<Rightarrow> string option) \<Rightarrow>
     val \<Rightarrow> val \<Rightarrow> val \<Rightarrow> val \<Rightarrow> string \<Rightarrow> exn + string" where
  "login_spec decode exchange state code error error_description cookie_header =
    (let session = decode cookie_header in
     if error \<noteq> VNone then
       Inl (AccessDenied (case error_description of VStr d \<Rightarrow> d | _ \<Rightarrow> ''identity provider error''))
     else if state \<noteq> dict_get session ''oidc_state'' then Inl (AccessDenied ''state mismatch'')
     else if code = VNone then Inl (AccessDenied ''code missing'')
     else (case exchange code (dict_get session ''code_verifier'') of
             None \<Rightarrow> Inl (AccessDenied ''token exchange or validation failed'')
           | Some id_token \<Rightarrow> Inr id_token))"

section \<open>An environment for concrete evaluation\<close>

text \<open>
  One instance of the collaborators, on which the theorems below are evaluated. Three
  cookies decode to a session: one started for the web console without a role, one
  with a role chosen in advance, one started to rebuild the group role map. Every other
  cookie header, the empty one included, decodes to the empty session. The identity
  provider accepts the code \<^verbatim>\<open>good\<close>; AWS federates the role \<^verbatim>\<open>Admin\<close> only.
\<close>

definition example_config :: config where
  "example_config =
     \<lparr>oidc_scope = ''openid email'', redirect_uri = ''https://rp.example/redirect_uri'',
      client_id = ''client1'', cookie_name = ''session'',
      default_session_duration = VInt 43200\<rparr>"

definition example_discovery :: discovery_document where
  "example_discovery =
     \<lparr>authorization_endpoint = ''https://idp.example/authorize'',
      token_endpoint = ''https://idp.example/token'',
      jwks = VDict [(''keys'', VList [])]\<rparr>"

definition console_session :: store where
  "console_session =
     [(''action'', VStr ''aws-web-console''), (''oidc_state'', VStr ''1-abc''),
      (''code_verifier'', VStr ''verifier''), (''session_duration'', VInt 3600),
      (''cache'', VBool True), (''client_workflow_state'', VStr ''redirecting''),
      (''client_workflow_value'', VNone), (''destination_url'', VNone)]"

definition admin_session :: store where
  "admin_session = console_session @ [(''role_arn'', VStr ''arn:aws:iam::111122223333:role/Admin'')]"

definition rebuild_session :: store where
  "rebuild_session =
     [(''action'', VStr ''rebuild-group-role-map''), (''oidc_state'', VStr ''1-abc''),
      (''code_verifier'', VStr ''verifier''), (''session_duration'', VInt 3600),
      (''cache'', VBool True), (''client_workflow_state'', VStr ''redirecting''),
      (''client_workflow_value'', VNone), (''destination_url'', VNone)]"

definition example_get_store :: "string \<Rightarrow> store" where
  "example_get_store cookie_header =
     (if cookie_header = ''session=console'' then console_session
      else if cookie_header = ''session=admin'' then admin_session
      else if cookie_header = ''session=rebuild'' then rebuild_session
      else [])"

definition example_exchange :: "val \<Rightarrow> val \<Rightarrow> string option" where
  "example_exchange code verifier =
     (if code = VStr ''good'' \<and> verifier = VStr ''verifier'' then Some ''token'' else None)"

definition example_federation :: "val \<Rightarrow> store \<Rightarrow> exn + string" where
  "example_federation keys store =
     (if dict_get store ''id_token'' = VStr ''token'' \<and>
         dict_get store ''role_arn'' = VStr ''arn:aws:iam::111122223333:role/Admin''
      then Inr ''https://signin.aws.amazon.com/federation?Action=login&SigninToken=t''
      else Inl (AccessDenied ''role assumption rejected''))"

definition example_json :: "store option \<Rightarrow> val option \<Rightarrow> pydict" where
  "example_json store body =
     [(''statusCode'', VInt 200),
      (''headers'', VDict ((''Content-Type'', VStr ''application/json'') #
         (case store of None \<Rightarrow> [] | Some s \<Rightarrow> [(''Set-Cookie'', VDict s)]))),
      (''body'', (case body of None \<Rightarrow> VNone | Some b \<Rightarrow> b))]"

text \<open>A stand-in for the cookie codec that shows the fields of the store, so that the
  cookie a response sets can be read.\<close>

fun show_val :: "val \<Rightarrow> string" where
  "show_val VNone = ''null''"
| "show_val (VBool b) = (if b then ''true'' else ''false'')"
| "show_val (VStr s) = s"
| "show_val v = ''...''"

definition show_store :: "store \<Rightarrow> string" where
  "show_store store = concat (map (\<lambda>kv. fst kv @ '':'' @ show_val (snd kv) @ '','') store)"

definition zero_entropy :: entropy where
  "zero_entropy = (\<lambda>i. 0)"

definition counting_entropy :: entropy where
  "counting_entropy = (\<lambda>i. word_of_nat i)"

definition example_env :: env where
  "example_env =
     \<lparr>CONFIG = example_config,
      base64_without_padding = base64url_nopad,
      convert_account_alias = (\<lambda>arn id_token cache. Inr arn),
      encode_cookie_value = show_store,
      get_aws_federation_url = example_federation,
      get_destination_url = (\<lambda>referer. VNone),
      get_discovery_document = Inr example_discovery,
      get_role_arn = (\<lambda>q. case map_of q ''arn'' of None \<Rightarrow> VNone | Some a \<Rightarrow> VStr a),
      get_roles = (\<lambda>id_token cache. Inr (VList [])),
      get_store = example_get_store,
      get_email_or_username = (\<lambda>keys id_token. Inr ''user@example.com''),
      login = login_spec example_get_store example_exchange,
      read_resource = (\<lambda>path. VNone),
      return_api_gateway_json = example_json,
      trigger_group_role_map_rebuild = (\<lambda>keys id_token. Inr VNone),
      sha256 = (\<lambda>bs. replicate 32 0),
      json_loads = (\<lambda>bs. if bs = [] then Inl (JSONDecodeError ''Expecting value'')
                          else Inr (VDict [])),
      urlparse = (\<lambda>u. \<lparr>scheme = ''https'', netloc = ''idp.example'', url_path = ''/authorize'',
                        params = [], query = [], fragment = []\<rparr>),
      urlunparse = (\<lambda>p. scheme p @ ''://'' @ netloc p @ url_path p @ ''?'' @ query p),
      int_of_str = (\<lambda>s. if s = ''3600'' then Some 3600 else None),
      guess_type = (\<lambda>path. VNone)\<rparr>"

text \<open>Two callback bodies: one the identity provider sends after a successful login, one
  it sends after a refusal, with a code and an error description as well.\<close>

definition good_callback_body :: val where
  "good_callback_body = VDict [(''state'', VStr ''1-abc''), (''code'', VStr ''good'')]"

definition denied_callback_body :: pydict where
  "denied_callback_body =
     [(''state'', VStr ''1-abc''), (''code'', VStr ''good''), (''error'', VStr ''access_denied''),
      (''error_description'', VStr ''user is blocked by rule 17'')]"

definition example_event :: "string \<Rightarrow> string \<Rightarrow> string \<Rightarrow> val \<Rightarrow> event" where
  "example_event path method cookie body =
     \<lparr>ev_path = path, ev_httpMethod = method,
      ev_headers = Some [(''Cookie'', cookie), (''X-Forwarded-For'', ''203.0.113.7, 10.0.0.1'')],
      ev_queryStringParameters = None, ev_body = Some body\<rparr>"

text \<open>A request without headers, so without a cookie.\<close>

definition anonymous_event :: "string \<Rightarrow> string \<Rightarrow> val \<Rightarrow> event" where
  "anonymous_event path method body =
     \<lparr>ev_path = path, ev_httpMethod = method, ev_headers = None,
      ev_queryStringParameters = None, ev_body = Some body\<rparr>"

text \<open>A request that starts the flow, with its query string.\<close>

definition start_event :: "(string \<times> string) list \<Rightarrow> event" where
  "start_event q =
     \<lparr>ev_path = ''/'', ev_httpMethod = ''GET'', ev_headers = None,
      ev_queryStringParameters = Some q, ev_body = Some VNone\<rparr>"

text \<open>A complete role selection, as the role picker posts it.\<close>

definition admin_selection :: pydict where
  "admin_selection =
     [(''arn'', VStr ''arn:aws:iam::111122223333:role/Admin''), (''alias'', VStr ''prod''),
      (''role'', VStr ''Admin'')]"

text \<open>The selection and a body with \<^verbatim>\<open>arn\<close> only, as the client sends them: base64 of
  the JSON text.\<close>

definition admin_selection_body :: val where
  "admin_selection_body =
     VStr ''eyJhcm4iOiAiYXJuOmF3czppYW06OjExMTEyMjIyMzMzMzpyb2xlL0FkbWluIiwgImFsaWFzIjogInByb2QiLCAicm9sZSI6ICJBZG1pbiJ9''"

definition arn_only :: pydict where
  "arn_only = [(''arn'', VStr ''arn:aws:iam::111122223333:role/Admin'')]"

definition arn_only_body :: val where
  "arn_only_body = VStr ''eyJhcm4iOiAiYXJuOmF3czppYW06OjExMTEyMjIyMzMzMzpyb2xlL0FkbWluIn0=''"

text \<open>
  Variants of the example environment: the JSON parser returning one of the two bodies
  above; an account alias that cannot be resolved; a federation endpoint and a rebuild
  trigger that cannot be reached; a federation helper that indexes the store.
\<close>

definition selection_env :: env where
  "selection_env = example_env\<lparr>json_loads := (\<lambda>bs. Inr (VDict admin_selection))\<rparr>"

definition arn_only_env :: env where
  "arn_only_env = example_env\<lparr>json_loads := (\<lambda>bs. Inr (VDict arn_only))\<rparr>"

definition unresolvable_env :: env where
  "unresolvable_env =
     example_env\<lparr>convert_account_alias :=
       (\<lambda>arn id_token cache. Inl (AccessDenied ''account alias not found''))\<rparr>"

definition unreachable_federation_env :: env where
  "unreachable_federation_env =
     example_env\<lparr>get_aws_federation_url :=
       (\<lambda>keys store. Inl (OtherError ''federation endpoint unreachable''))\<rparr>"

text \<open>A federation helper that reads the ID token with \<^verbatim>\<open>store['id_token']\<close>.\<close>

definition indexing_federation :: "val \<Rightarrow> store \<Rightarrow> exn + string" where
  "indexing_federation keys store =
     (case dict_getitem store ''id_token'' of
        Inl e \<Rightarrow> Inl e
      | Inr id_token \<Rightarrow> example_federation keys store)"

definition indexing_federation_env :: env where
  "indexing_federation_env = selection_env\<lparr>get_aws_federation_url := indexing_federation\<rparr>"

definition unreachable_trigger_env :: env where
  "unreachable_trigger_env =
     example_env\<lparr>trigger_group_role_map_rebuild :=
       (\<lambda>keys id_token. Inl (OtherError ''rebuild endpoint unreachable''))\<rparr>"

section \<open>Properties\<close>

subsection \<open>Dictionaries\<close>

lemma dict_get_set: "dict_get (dict_set d k v) k' = (if k' = k then v else dict_get d k')"
  by (simp add: dict_get_def dict_set_def update_conv')

lemma dict_get_default_set:
  "dict_get_default (dict_set d k v) k' x = (if k' = k then v else dict_get_default d k' x)"
  by (simp add: dict_get_default_def dict_set_def update_conv')

lemma dict_contains_set: "dict_contains k (dict_set d k' v) = (k = k' \<or> dict_contains k d)"
  by (auto simp: dict_contains_def dict_set_def dom_update)

lemma dict_contains_map_of: "dict_contains k d = (map_of d k \<noteq> None)"
  by (simp add: dict_contains_def map_of_eq_None_iff)

subsection \<open>The handler answers every request it can parse\<close>

lemma lambda_handler_returns:
  assumes "get_discovery_document env = Inr dd"
      and "parse_body env (ev_body event) = Inr parsed_body"
  shows "\<exists>r. snd (lambda_handler env rnd event) = Inr r"
  using assms
  by (simp add: lambda_handler_def Let_def split: prod.splits sum.splits)

subsection \<open>The example environment\<close>

lemma example_env_fields:
  "CONFIG example_env = example_config"
  "base64_without_padding example_env = base64url_nopad"
  "get_store example_env = example_get_store"
  "get_discovery_document example_env = Inr example_discovery"
  "return_api_gateway_json example_env = example_json"
  "login example_env = login_spec example_get_store example_exchange"
  "get_aws_federation_url example_env = example_federation"
  "convert_account_alias example_env = (\<lambda>arn id_token cache. Inr arn)"
  "get_email_or_username example_env = (\<lambda>keys id_token. Inr ''user@example.com'')"
  "trigger_group_role_map_rebuild example_env = (\<lambda>keys id_token. Inr VNone)"
  "get_roles example_env = (\<lambda>id_token cache. Inr (VList []))"
  "json_loads example_env = (\<lambda>bs. if bs = [] then Inl (JSONDecodeError ''Expecting value'')
                          else Inr (VDict []))"
  "encode_cookie_value example_env = show_store"
  "get_destination_url example_env = (\<lambda>referer. VNone)"
  "get_role_arn example_env = (\<lambda>q. case map_of q ''arn'' of None \<Rightarrow> VNone | Some a \<Rightarrow> VStr a)"
  "sha256 example_env = (\<lambda>bs. replicate 32 0)"
  "int_of_str example_env = (\<lambda>s. if s = ''3600'' then Some 3600 else None)"
  "read_resource example_env = (\<lambda>path. VNone)"
  by (simp_all add: example_env_def)

lemma parse_body_null:
  "parse_body env (Some VNone) =
     Inr (VDict [(''error'', VStr ''Unable to parse POST data''), (''body'', VNone),
                 (''exception'', VStr ''argument should be a bytes-like object or ASCII string'')])"
  by (simp add: parse_body_def)

lemma example_try_login_good:
  "try_login example_env ''session=console'' good_callback_body = Inr ''token''"
  "try_login example_env ''session=admin'' good_callback_body = Inr ''token''"
  "try_login example_env ''session=rebuild'' good_callback_body = Inr ''token''"
  by (simp_all add: try_login_def login_args_def good_callback_body_def example_env_fields
        login_spec_def dict_get_def example_get_store_def console_session_def admin_session_def
        rebuild_session_def example_exchange_def)

lemma variant_env_fields:
  "get_store unresolvable_env = example_get_store"
  "get_discovery_document unresolvable_env = Inr example_discovery"
  "login unresolvable_env = login_spec example_get_store example_exchange"
  "convert_account_alias unresolvable_env = (\<lambda>arn id_token cache. Inl (AccessDenied ''account alias not found''))"
  "get_store unreachable_federation_env = example_get_store"
  "get_discovery_document unreachable_federation_env = Inr example_discovery"
  "login unreachable_federation_env = login_spec example_get_store example_exchange"
  "convert_account_alias unreachable_federation_env = (\<lambda>arn id_token cache. Inr arn)"
  "get_aws_federation_url unreachable_federation_env =
     (\<lambda>keys store. Inl (OtherError ''federation endpoint unreachable''))"
  "get_store indexing_federation_env = example_get_store"
  "get_discovery_document indexing_federation_env = Inr example_discovery"
  "get_aws_federation_url indexing_federation_env = indexing_federation"
  "json_loads indexing_federation_env = (\<lambda>bs. Inr (VDict admin_selection))"
  "get_store unreachable_trigger_env = example_get_store"
  "get_discovery_document unreachable_trigger_env = Inr example_discovery"
  "login unreachable_trigger_env = login_spec example_get_store example_exchange"
  "trigger_group_role_map_rebuild unreachable_trigger_env =
     (\<lambda>keys id_token. Inl (OtherError ''rebuild endpoint unreachable''))"
  "get_store arn_only_env = example_get_store"
  "get_discovery_document arn_only_env = Inr example_discovery"
  "json_loads arn_only_env = (\<lambda>bs. Inr (VDict arn_only))"
  "get_store selection_env = example_get_store"
  "get_discovery_document selection_env = Inr example_discovery"
  "json_loads selection_env = (\<lambda>bs. Inr (VDict admin_selection))"
  "get_aws_federation_url selection_env = example_federation"
  "get_email_or_username selection_env = (\<lambda>keys id_token. Inr ''user@example.com'')"
  "return_api_gateway_json selection_env = example_json"
  by (simp_all add: unresolvable_env_def unreachable_federation_env_def unreachable_trigger_env_def
        arn_only_env_def selection_env_def indexing_federation_env_def example_env_fields)

lemma example_sessions:
  "example_get_store ''session=console'' = console_session"
  "example_get_store ''session=admin'' = admin_session"
  "example_get_store ''session=rebuild'' = rebuild_session"
  "example_get_store [] = []"
  by (simp_all add: example_get_store_def)

lemma good_login:
  "login_spec example_get_store example_exchange (VStr ''1-abc'') (VStr ''good'') VNone VNone
     ''session=admin'' = Inr ''token''"
  "login_spec example_get_store example_exchange (VStr ''1-abc'') (VStr ''good'') VNone VNone
     ''session=rebuild'' = Inr ''token''"
  by (simp_all add: login_spec_def example_sessions admin_session_def console_session_def
        rebuild_session_def dict_get_def example_exchange_def)

lemma session_actions:
  "dict_get (dict_set admin_session ''id_token'' v) ''action'' = VStr ''aws-web-console''"
  "dict_get (dict_set rebuild_session ''id_token'' v) ''action'' = VStr ''rebuild-group-role-map''"
  "dict_contains ''role_arn'' (dict_set admin_session ''id_token'' v)"
  "dict_get (dict_set admin_session ''id_token'' v) ''role_arn'' =
     VStr ''arn:aws:iam::111122223333:role/Admin''"
  "dict_get (dict_set admin_session ''id_token'' v) ''client_workflow_state'' = VStr ''redirecting''"
  by (simp_all add: dict_get_set dict_contains_set)
     (simp_all add: dict_get_def dict_contains_def admin_session_def console_session_def
        rebuild_session_def)

subsection \<open>The state query\<close>

text \<open>
  C8. The state query is read-only. \<^verbatim>\<open>get_state\<close> returns the session's
  \<^verbatim>\<open>client_workflow_state\<close> and \<^verbatim>\<open>client_workflow_value\<close> as the fields \<^verbatim>\<open>state\<close> and
  \<^verbatim>\<open>value\<close> of the body and leaves the store as it found it, every field of it; it
  hands no store to \<^verbatim>\<open>return_api_gateway_json\<close>, so no cookie is written. The
  dispatch of the path \<^verbatim>\<open>/api/state\<close> is exactly this call, whatever the method, the
  body and the query string of the request.
\<close>

theorem get_state_read_only:
  "get_state env store =
     (store, return_api_gateway_json env None
        (Some (VDict [(''state'', dict_get store ''client_workflow_state''),
                      (''value'', dict_get store ''client_workflow_value'')]))) \<and>
   dispatch env rnd dd store ''/api/state'' method cookie_header referer source_ip q parsed_body =
     (store, Inr (snd (get_state env store)))"
  by (simp add: get_state_def dispatch_def)

theorem get_state_read_only_witness:
  "lambda_handler example_env zero_entropy
       (example_event ''/api/state'' ''GET'' ''session=console'' VNone) =
     (console_session,
      Inr (example_json None (Some (VDict [(''state'', VStr ''redirecting''), (''value'', VNone)]))))"
proof -
  have g: "dict_get console_session ''client_workflow_state'' = VStr ''redirecting''"
          "dict_get console_session ''client_workflow_value'' = VNone"
    by (simp_all add: dict_get_def console_session_def)
  have d: "dispatch example_env rnd dd console_session ''/api/state'' m c rf ip q pb =
       (console_session,
        Inr (example_json None (Some (VDict [(''state'', VStr ''redirecting''), (''value'', VNone)]))))"
    for rnd dd m c rf ip q pb
    using get_state_read_only [of example_env console_session rnd dd m c rf ip q pb]
    by (simp add: g example_env_fields)
  show ?thesis
    by (simp add: lambda_handler_def example_event_def Let_def str_get_default_def parse_body_null
          d example_env_fields example_get_store_def)
qed

subsection \<open>The callback: refusal\<close>

text \<open>
  C1. With \<^verbatim>\<open>login\<close> as the specification describes it: when the callback carries an
  error parameter, or a state different from the session's \<^verbatim>\<open>oidc_state\<close>, the
  callback returns normally, with the decoded session in which
  \<^verbatim>\<open>client_workflow_state\<close> is \<^verbatim>\<open>error\<close> and \<^verbatim>\<open>client_workflow_value\<close> is the fixed
  \<^verbatim>\<open>{'message': 'Access denied'}\<close>, every other field unchanged. The result is the same
  for every code, every error description and every answer of the token endpoint:
  nothing the identity provider sent is in it. The discovery document is read before
  the \<^verbatim>\<open>try\<close> block, so the statement is for a request in which that read succeeds.
\<close>

theorem callback_denied_on_error_or_state_mismatch:
  assumes "login env = login_spec (get_store env) exchange"
      and "get_discovery_document env = Inr dd"
      and "dict_get b ''error'' \<noteq> VNone \<or>
           dict_get b ''state'' \<noteq> dict_get (get_store env cookie_header) ''oidc_state''"
  shows "let store' = dict_set (dict_set (get_store env cookie_header)
                         ''client_workflow_state'' (VStr ''error''))
                         ''client_workflow_value'' (VDict [(''message'', VStr ''Access denied'')])
         in handle_oidc_redirect_callback env cookie_header (VDict b) source_ip =
              (store', Inr (return_api_gateway_json env (Some store') None)) \<and>
            dict_get store' ''client_workflow_state'' = VStr ''error'' \<and>
            dict_get store' ''client_workflow_value'' = VDict [(''message'', VStr ''Access denied'')] \<and>
            (\<forall>k. k \<noteq> ''client_workflow_state'' \<and> k \<noteq> ''client_workflow_value'' \<longrightarrow>
                 dict_get store' k = dict_get (get_store env cookie_header) k)"
proof -
  have "\<exists>m. try_login env cookie_header (VDict b) = Inl (AccessDenied m)"
    using assms(1,3)
    by (auto simp: try_login_def login_args_def login_spec_def Let_def)
  then obtain m where "try_login env cookie_header (VDict b) = Inl (AccessDenied m)" ..
  then show ?thesis
    using assms(2)
    by (simp add: handle_oidc_redirect_callback_def Let_def access_denied_value_def dict_get_set)
qed

theorem callback_denied_witness:
  "login example_env = login_spec (get_store example_env) example_exchange \<and>
   get_discovery_document example_env = Inr example_discovery \<and>
   dict_get denied_callback_body ''error'' \<noteq> VNone \<and>
   handle_oidc_redirect_callback example_env ''session=console'' (VDict denied_callback_body)
       ''203.0.113.7'' =
     (let store' =
        [(''action'', VStr ''aws-web-console''), (''oidc_state'', VStr ''1-abc''),
         (''code_verifier'', VStr ''verifier''), (''session_duration'', VInt 3600),
         (''cache'', VBool True), (''client_workflow_state'', VStr ''error''),
         (''client_workflow_value'', VDict [(''message'', VStr ''Access denied'')]),
         (''destination_url'', VNone)]
      in (store', Inr (example_json (Some store') None)))"
proof -
  have h1: "login example_env = login_spec (get_store example_env) example_exchange"
    by (simp add: example_env_def)
  have h2: "get_discovery_document example_env = Inr example_discovery"
    by (simp add: example_env_def)
  have h3: "dict_get denied_callback_body ''error'' \<noteq> VNone"
    by (simp add: dict_get_def denied_callback_body_def)
  have s: "get_store example_env ''session=console'' = console_session"
          "return_api_gateway_json example_env = example_json"
    by (simp_all add: example_env_def example_get_store_def)
  from h3 have h3': "dict_get denied_callback_body ''error'' \<noteq> VNone \<or>
      dict_get denied_callback_body ''state'' \<noteq>
        dict_get (get_store example_env ''session=console'') ''oidc_state''" ..
  show ?thesis
    using callback_denied_on_error_or_state_mismatch [OF h1 h2 h3', of "''203.0.113.7''"] h1 h2 h3
    by (simp add: Let_def s console_session_def dict_set_def)
qed

subsection \<open>The callback: routing of the web console\<close>

text \<open>
  C3, as stated, fails on the code. In a session with \<^verbatim>\<open>role_arn\<close>, the alias
  conversion of line 114 and the federation called from \<^verbatim>\<open>pick_role\<close> can raise
  without the state being set. When the alias conversion raises \<open>AccessDenied\<close> the
  callback raises it, no federation is called and the state stays \<^verbatim>\<open>redirecting\<close>;
  when the federation raises an exception of another class than \<open>AccessDenied\<close> the
  callback raises it as well. In neither case is the state \<^verbatim>\<open>aws_federate\<close> or
  \<^verbatim>\<open>error\<close>.
\<close>

theorem callback_console_raises_counterexample:
  "dict_get (get_store unresolvable_env ''session=admin'') ''action'' = VStr ''aws-web-console'' \<and>
   dict_contains ''role_arn'' (get_store unresolvable_env ''session=admin'') \<and>
   try_login unresolvable_env ''session=admin'' good_callback_body = Inr ''token'' \<and>
   handle_oidc_redirect_callback unresolvable_env ''session=admin'' good_callback_body ''203.0.113.7'' =
     (dict_set admin_session ''id_token'' (VStr ''token''),
      Inl (AccessDenied ''account alias not found'')) \<and>
   dict_get (dict_set admin_session ''id_token'' (VStr ''token'')) ''client_workflow_state'' =
     VStr ''redirecting'' \<and>
   try_login unreachable_federation_env ''session=admin'' good_callback_body = Inr ''token'' \<and>
   handle_oidc_redirect_callback unreachable_federation_env ''session=admin'' good_callback_body
       ''203.0.113.7'' =
     (dict_set admin_session ''id_token'' (VStr ''token''),
      Inl (OtherError ''federation endpoint unreachable''))"
proof -
  have l: "try_login unresolvable_env ''session=admin'' good_callback_body = Inr ''token''"
          "try_login unreachable_federation_env ''session=admin'' good_callback_body = Inr ''token''"
    by (simp_all add: try_login_def login_args_def good_callback_body_def variant_env_fields
          dict_get_def good_login)
  have a: "dict_get (example_get_store ''session=admin'') ''action'' = VStr ''aws-web-console''"
          "dict_contains ''role_arn'' (example_get_store ''session=admin'')"
    by (simp_all add: example_sessions admin_session_def console_session_def dict_get_def
          dict_contains_def)
  show ?thesis
    by (simp add: l a handle_oidc_redirect_callback_def Let_def variant_env_fields example_sessions
          session_actions callback_aws_web_console_def pick_role_def)
       (simp add: dict_get_def dict_contains_def dict_set_def admin_session_def console_session_def)
qed

text \<open>
  C3, amended. After a successful token exchange in a session whose action is
  \<^verbatim>\<open>aws-web-console\<close>: without \<^verbatim>\<open>role_arn\<close> in the session the callback returns the
  session with the ID token stored and \<^verbatim>\<open>client_workflow_state\<close> set to
  \<^verbatim>\<open>role_picker\<close>. With \<^verbatim>\<open>role_arn\<close> in the session, every response the callback
  returns is the session with the state \<^verbatim>\<open>aws_federate\<close> and a value carrying
  \<^verbatim>\<open>awsFederationUrl\<close>, or with the state \<^verbatim>\<open>error\<close> and the fixed denial, so never
  \<^verbatim>\<open>role_picker\<close>; and when the alias conversion returns and the lookup of the user's
  name for the log line returns, the callback does return: with \<^verbatim>\<open>aws_federate\<close> when
  the federation gives a URL, with \<^verbatim>\<open>error\<close> when it raises \<open>AccessDenied\<close>.
\<close>

theorem callback_console_routing:
  assumes "get_discovery_document env = Inr dd"
      and "try_login env cookie_header body = Inr id_token"
      and "dict_get (get_store env cookie_header) ''action'' = VStr ''aws-web-console''"
  shows "let store = dict_set (get_store env cookie_header) ''id_token'' (VStr id_token);
             result = handle_oidc_redirect_callback env cookie_header body source_ip
         in (\<not> dict_contains ''role_arn'' (get_store env cookie_header) \<longrightarrow>
               (let picker = dict_set store ''client_workflow_state'' (VStr ''role_picker'')
                in result = (picker, Inr (return_api_gateway_json env (Some picker) None)) \<and>
                   dict_get picker ''client_workflow_state'' = VStr ''role_picker'')) \<and>
            (dict_contains ''role_arn'' (get_store env cookie_header) \<longrightarrow>
               (\<forall>r. snd result = Inr r \<longrightarrow>
                  r = return_api_gateway_json env (Some (fst result)) None \<and>
                  ((\<exists>url. dict_get (fst result) ''client_workflow_state'' = VStr ''aws_federate'' \<and>
                          dict_get (fst result) ''client_workflow_value'' =
                            VDict [(''awsFederationUrl'', VStr url)]) \<or>
                   (dict_get (fst result) ''client_workflow_state'' = VStr ''error'' \<and>
                    dict_get (fst result) ''client_workflow_value'' =
                      VDict [(''message'', VStr ''Access denied'')]))) \<and>
               (\<forall>arn who. convert_account_alias env (dict_get store ''role_arn'') (VStr id_token)
                              (dict_get_default store ''cache'' (VBool True)) = Inr arn \<and>
                           get_email_or_username env (jwks dd) (VStr id_token) = Inr who \<longrightarrow>
                  (\<forall>url. get_aws_federation_url env (jwks dd) (dict_set store ''role_arn'' arn) = Inr url \<longrightarrow>
                      snd result = Inr (return_api_gateway_json env (Some (fst result)) None) \<and>
                      dict_get (fst result) ''client_workflow_state'' = VStr ''aws_federate'' \<and>
                      dict_get (fst result) ''client_workflow_value'' =
                        VDict [(''awsFederationUrl'', VStr url)]) \<and>
                  (\<forall>m. get_aws_federation_url env (jwks dd) (dict_set store ''role_arn'' arn) =
                          Inl (AccessDenied m) \<longrightarrow>
                      snd result = Inr (return_api_gateway_json env (Some (fst result)) None) \<and>
                      dict_get (fst result) ''client_workflow_state'' = VStr ''error'' \<and>
                      dict_get (fst result) ''client_workflow_value'' =
                        VDict [(''message'', VStr ''Access denied'')])))"
  using assms
  apply (simp add: handle_oidc_redirect_callback_def Let_def dict_get_set dict_contains_set
                   dict_get_default_set callback_aws_web_console_def pick_role_def access_denied_value_def
              split: sum.splits prod.splits)
  apply (auto simp: dict_get_set split: if_splits)
  done

theorem callback_console_routing_witness:
  "get_discovery_document example_env = Inr example_discovery \<and>
   try_login example_env ''session=console'' good_callback_body = Inr ''token'' \<and>
   dict_get (get_store example_env ''session=console'') ''action'' = VStr ''aws-web-console'' \<and>
   \<not> dict_contains ''role_arn'' (get_store example_env ''session=console'') \<and>
   handle_oidc_redirect_callback example_env ''session=console'' good_callback_body ''203.0.113.7'' =
     (let picker = dict_set (dict_set console_session ''id_token'' (VStr ''token''))
                     ''client_workflow_state'' (VStr ''role_picker'')
      in (picker, Inr (example_json (Some picker) None))) \<and>
   try_login example_env ''session=admin'' good_callback_body = Inr ''token'' \<and>
   dict_get (get_store example_env ''session=admin'') ''action'' = VStr ''aws-web-console'' \<and>
   dict_contains ''role_arn'' (get_store example_env ''session=admin'') \<and>
   dict_get (fst (handle_oidc_redirect_callback example_env ''session=admin'' good_callback_body
                    ''203.0.113.7'')) ''client_workflow_state'' = VStr ''aws_federate'' \<and>
   dict_get (fst (handle_oidc_redirect_callback example_env ''session=admin'' good_callback_body
                    ''203.0.113.7'')) ''client_workflow_value'' =
     VDict [(''awsFederationUrl'',
             VStr ''https://signin.aws.amazon.com/federation?Action=login&SigninToken=t'')]"
proof -
  have h1: "get_discovery_document example_env = Inr example_discovery"
    by (simp add: example_env_fields)
  have h2: "try_login example_env ''session=console'' good_callback_body = Inr ''token''"
    by (rule example_try_login_good)
  have h3: "dict_get (get_store example_env ''session=console'') ''action'' = VStr ''aws-web-console''"
    by (simp add: example_env_fields example_get_store_def dict_get_def console_session_def)
  have h4: "\<not> dict_contains ''role_arn'' (get_store example_env ''session=console'')"
    by (simp add: example_env_fields example_get_store_def dict_contains_def console_session_def)
  have a2: "try_login example_env ''session=admin'' good_callback_body = Inr ''token''"
    by (rule example_try_login_good)
  have a3: "dict_get (get_store example_env ''session=admin'') ''action'' = VStr ''aws-web-console''"
    by (simp add: example_env_fields example_get_store_def dict_get_def console_session_def
          admin_session_def)
  have a4: "dict_contains ''role_arn'' (get_store example_env ''session=admin'')"
    by (simp add: example_env_fields example_get_store_def dict_contains_def console_session_def
          admin_session_def)
  have a5: "get_aws_federation_url example_env (jwks example_discovery)
              (dict_set (dict_set (get_store example_env ''session=admin'') ''id_token'' (VStr ''token''))
                 ''role_arn'' (VStr ''arn:aws:iam::111122223333:role/Admin'')) =
            Inr ''https://signin.aws.amazon.com/federation?Action=login&SigninToken=t''"
    by (simp add: example_env_fields example_federation_def dict_get_set)
  have a6: "dict_get (dict_set (get_store example_env ''session=admin'') ''id_token'' (VStr ''token''))
              ''role_arn'' = VStr ''arn:aws:iam::111122223333:role/Admin''"
    by (subst dict_get_set)
       (simp add: example_env_fields example_get_store_def dict_get_def console_session_def
          admin_session_def)
  have console: "handle_oidc_redirect_callback example_env ''session=console'' good_callback_body
         ''203.0.113.7'' =
       (let picker = dict_set (dict_set console_session ''id_token'' (VStr ''token''))
                       ''client_workflow_state'' (VStr ''role_picker'')
        in (picker, Inr (example_json (Some picker) None)))"
    using callback_console_routing [OF h1 h2 h3, of "''203.0.113.7''"] h4
    by (simp add: Let_def example_env_fields example_get_store_def)
  have admin: "dict_get (fst (handle_oidc_redirect_callback example_env ''session=admin''
                   good_callback_body ''203.0.113.7'')) ''client_workflow_state'' = VStr ''aws_federate'' \<and>
     dict_get (fst (handle_oidc_redirect_callback example_env ''session=admin''
                   good_callback_body ''203.0.113.7'')) ''client_workflow_value'' =
       VDict [(''awsFederationUrl'',
               VStr ''https://signin.aws.amazon.com/federation?Action=login&SigninToken=t'')]"
    using callback_console_routing [OF h1 a2 a3, of "''203.0.113.7''"] a4 a5 a6
    by (simp add: Let_def example_env_fields)
  show ?thesis
    using h1 h2 h3 h4 a2 a3 a4 console admin by simp
qed

subsection \<open>The callback: rebuilding the group role map\<close>

text \<open>
  C7, as stated, fails on the code. The \<^verbatim>\<open>except\<close> clause of line 134 names
  \<open>AccessDenied\<close> only. When the trigger fails with an exception of another class, the
  callback raises it, with the session left in the processing state: the workflow does
  not settle in \<^verbatim>\<open>error\<close>.
\<close>

theorem callback_rebuild_raises_counterexample:
  "dict_get (get_store unreachable_trigger_env ''session=rebuild'') ''action'' =
     VStr ''rebuild-group-role-map'' \<and>
   try_login unreachable_trigger_env ''session=rebuild'' good_callback_body = Inr ''token'' \<and>
   handle_oidc_redirect_callback unreachable_trigger_env ''session=rebuild'' good_callback_body
       ''203.0.113.7'' =
     ([(''action'', VStr ''rebuild-group-role-map''), (''oidc_state'', VStr ''1-abc''),
       (''code_verifier'', VStr ''verifier''), (''session_duration'', VInt 3600),
       (''cache'', VBool True), (''client_workflow_state'', VStr ''info''),
       (''client_workflow_value'', VDict [(''message'', VStr ''Processing rebuild...'')]),
       (''destination_url'', VNone), (''id_token'', VStr ''token'')],
      Inl (OtherError ''rebuild endpoint unreachable''))"
proof -
  have l: "try_login unreachable_trigger_env ''session=rebuild'' good_callback_body = Inr ''token''"
    by (simp add: try_login_def login_args_def good_callback_body_def variant_env_fields
          dict_get_def good_login)
  have a: "dict_get (example_get_store ''session=rebuild'') ''action'' = VStr ''rebuild-group-role-map''"
    by (simp add: example_sessions rebuild_session_def dict_get_def)
  show ?thesis
    by (simp add: l a handle_oidc_redirect_callback_def Let_def variant_env_fields example_sessions
          session_actions callback_rebuild_def)
       (simp add: rebuild_session_def dict_set_def dict_get_def)
qed

text \<open>
  C7, amended. After a successful token exchange in a session whose action is
  \<^verbatim>\<open>rebuild-group-role-map\<close>, the callback first puts the session in the state
  \<^verbatim>\<open>info\<close> with the message \<^verbatim>\<open>Processing rebuild...\<close> and then calls the trigger.
  When the trigger returns and the lookup of the user's name for the log line returns,
  the session settles in \<^verbatim>\<open>info\<close> with \<^verbatim>\<open>Group Role Map rebuild initiated\<close>; when the
  trigger fails with \<open>AccessDenied\<close> the callback returns normally with the session in
  \<^verbatim>\<open>error\<close> and the fixed \<^verbatim>\<open>Access denied\<close>. When the trigger fails with an exception
  of another class, the callback raises it with the session still in the processing
  state, and the handler answers the request with the response 500, which carries no
  cookie. In every case the fields of the session other than the workflow state and
  value are those of the decoded session with the ID token stored.
\<close>

theorem callback_rebuild_group_role_map:
  assumes "get_discovery_document env = Inr dd"
      and "try_login env cookie_header body = Inr id_token"
      and "dict_get (get_store env cookie_header) ''action'' = VStr ''rebuild-group-role-map''"
  shows "let store = dict_set (get_store env cookie_header) ''id_token'' (VStr id_token);
             processing = dict_set (dict_set store ''client_workflow_state'' (VStr ''info''))
                            ''client_workflow_value''
                            (VDict [(''message'', VStr ''Processing rebuild...'')]);
             initiated = dict_set (dict_set processing ''client_workflow_state'' (VStr ''info''))
                            ''client_workflow_value''
                            (VDict [(''message'', VStr ''Group Role Map rebuild initiated'')]);
             denied = dict_set (dict_set processing ''client_workflow_state'' (VStr ''error''))
                            ''client_workflow_value'' (VDict [(''message'', VStr ''Access denied'')]);
             trigger = trigger_group_role_map_rebuild env (jwks dd) (VStr id_token);
             result = handle_oidc_redirect_callback env cookie_header body source_ip
         in dict_get processing ''client_workflow_state'' = VStr ''info'' \<and>
            dict_get processing ''client_workflow_value'' =
              VDict [(''message'', VStr ''Processing rebuild...'')] \<and>
            dict_get initiated ''client_workflow_state'' = VStr ''info'' \<and>
            dict_get initiated ''client_workflow_value'' =
              VDict [(''message'', VStr ''Group Role Map rebuild initiated'')] \<and>
            dict_get denied ''client_workflow_state'' = VStr ''error'' \<and>
            dict_get denied ''client_workflow_value'' = VDict [(''message'', VStr ''Access denied'')] \<and>
            (\<forall>k. k \<noteq> ''client_workflow_state'' \<and> k \<noteq> ''client_workflow_value'' \<longrightarrow>
                 dict_get (fst result) k = dict_get store k) \<and>
            (\<forall>r who. trigger = Inr r \<and>
                      get_email_or_username env (jwks dd) (VStr id_token) = Inr who \<longrightarrow>
                 result = (initiated, Inr (return_api_gateway_json env (Some initiated) None))) \<and>
            (\<forall>m. trigger = Inl (AccessDenied m) \<longrightarrow>
                 result = (denied, Inr (return_api_gateway_json env (Some denied) None))) \<and>
            (\<forall>e. trigger = Inl e \<and> \<not> is_AccessDenied e \<longrightarrow>
                 result = (processing, Inl e) \<and>
                 (\<forall>rnd h q b.
                    str_get_default (case h of None \<Rightarrow> [] | Some x \<Rightarrow> x) ''Cookie'' [] = cookie_header \<and>
                    parse_body env b = Inr body \<longrightarrow>
                    lambda_handler env rnd
                      \<lparr>ev_path = ''/redirect_callback'', ev_httpMethod = ''POST'', ev_headers = h,
                       ev_queryStringParameters = q, ev_body = b\<rparr> =
                      (get_store env cookie_header, Inr response_500)))"
proof -
  have neq: "dict_get (dict_set (get_store env cookie_header) ''id_token'' (VStr id_token)) ''action''
               = VStr ''rebuild-group-role-map''"
    using assms(3) by (simp add: dict_get_set)
  have h: "handle_oidc_redirect_callback env cookie_header body source_ip =
           callback_rebuild env dd (dict_set (get_store env cookie_header) ''id_token'' (VStr id_token))
             source_ip"
    using assms(1,2) neq by (simp add: handle_oidc_redirect_callback_def Let_def)
  show ?thesis
    unfolding Let_def h
    using assms(1)
    apply (simp add: dict_get_set)
    apply (intro conjI allI impI)
       apply (simp_all add: callback_rebuild_def Let_def dict_get_set access_denied_value_def
                split: sum.splits)
     apply (auto simp: dict_get_set lambda_handler_def Let_def dispatch_def
                       handle_oidc_redirect_callback_def assms callback_rebuild_def)
    done
qed

theorem callback_rebuild_witness:
  "get_discovery_document example_env = Inr example_discovery \<and>
   try_login example_env ''session=rebuild'' good_callback_body = Inr ''token'' \<and>
   dict_get (get_store example_env ''session=rebuild'') ''action'' = VStr ''rebuild-group-role-map'' \<and>
   trigger_group_role_map_rebuild example_env (jwks example_discovery) (VStr ''token'') = Inr VNone \<and>
   get_email_or_username example_env (jwks example_discovery) (VStr ''token'') = Inr ''user@example.com'' \<and>
   fst (handle_oidc_redirect_callback example_env ''session=rebuild'' good_callback_body ''203.0.113.7'') =
     [(''action'', VStr ''rebuild-group-role-map''), (''oidc_state'', VStr ''1-abc''),
      (''code_verifier'', VStr ''verifier''), (''session_duration'', VInt 3600),
      (''cache'', VBool True), (''client_workflow_state'', VStr ''info''),
      (''client_workflow_value'', VDict [(''message'', VStr ''Group Role Map rebuild initiated'')]),
      (''destination_url'', VNone), (''id_token'', VStr ''token'')]"
proof -
  have h1: "get_discovery_document example_env = Inr example_discovery"
    by (simp add: example_env_fields)
  have h2: "try_login example_env ''session=rebuild'' good_callback_body = Inr ''token''"
    by (rule example_try_login_good)
  have h3: "dict_get (get_store example_env ''session=rebuild'') ''action'' = VStr ''rebuild-group-role-map''"
    by (simp add: example_env_fields example_get_store_def dict_get_def rebuild_session_def)
  have h4: "trigger_group_role_map_rebuild example_env (jwks example_discovery) (VStr ''token'') = Inr VNone"
           "get_email_or_username example_env (jwks example_discovery) (VStr ''token'') = Inr ''user@example.com''"
    by (simp_all add: example_env_fields)
  show ?thesis
    using callback_rebuild_group_role_map [OF h1 h2 h3, of "''203.0.113.7''"] h1 h2 h3 h4
    by (simp add: Let_def example_env_fields example_get_store_def rebuild_session_def dict_set_def)
qed

subsection \<open>Picking a role: missing fields\<close>

text \<open>What \<^verbatim>\<open>/api/roles\<close> does with a POSTed dictionary that lacks one of the three
  fields: 403 when \<^verbatim>\<open>arn\<close> is missing (or \<^verbatim>\<open>error\<close> is present), otherwise a
  \<open>KeyError\<close> while the dictionary of line 341 is built, before \<^verbatim>\<open>store.update\<close>.\<close>

lemma handle_post_roles_missing:
  assumes "\<not> dict_contains ''arn'' b \<or> \<not> dict_contains ''alias'' b \<or> \<not> dict_contains ''role'' b"
  shows "handle_post_roles env dd store (VDict b) source_ip =
           (store,
            if dict_contains ''error'' b \<or> \<not> dict_contains ''arn'' b then Inr response_403
            else if \<not> dict_contains ''alias'' b then Inl (KeyError ''alias'')
            else Inl (KeyError ''role''))"
  using assms
  by (auto simp: handle_post_roles_def invalid_post_data_def role_selection_def dict_getitem_def
        dict_contains_map_of)

text \<open>
  At the handler: a role-pick request whose body is a dictionary without \<^verbatim>\<open>arn\<close>,
  without \<^verbatim>\<open>alias\<close> or without \<^verbatim>\<open>role\<close> is answered 403 when \<^verbatim>\<open>arn\<close> is the missing
  field (or \<^verbatim>\<open>error\<close> is present) and with the generic response 500 otherwise. The
  store is the decoded session, untouched, the response sets no cookie, and the answer
  is the same whatever the federation and the alias conversion would do: neither is
  called.
\<close>

lemma role_pick_missing_field:
  assumes "\<not> dict_contains ''arn'' b \<or> \<not> dict_contains ''alias'' b \<or> \<not> dict_contains ''role'' b"
      and "get_discovery_document env = Inr dd"
      and "parse_body env body = Inr (VDict b)"
  shows "let event = \<lparr>ev_path = ''/api/roles'', ev_httpMethod = ''POST'', ev_headers = h,
                      ev_queryStringParameters = q, ev_body = body\<rparr>;
             store = get_store env (str_get_default (case h of None \<Rightarrow> [] | Some x \<Rightarrow> x) ''Cookie'' []);
             rejection = (if dict_contains ''error'' b \<or> \<not> dict_contains ''arn'' b
                          then response_403 else response_500)
         in lambda_handler env rnd event = (store, Inr rejection) \<and>
            dict_get rejection ''headers'' = VDict [(''Content-Type'', VStr ''text/html'')] \<and>
            (dict_get rejection ''statusCode'' = VInt 403 \<or>
             dict_get rejection ''statusCode'' = VInt 500) \<and>
            (\<forall>federation alias.
               lambda_handler (env\<lparr>get_aws_federation_url := federation,
                                  convert_account_alias := alias\<rparr>) rnd event =
               lambda_handler env rnd event)"
proof -
  define event where "event = \<lparr>ev_path = ''/api/roles'', ev_httpMethod = ''POST'', ev_headers = h,
                      ev_queryStringParameters = q, ev_body = body\<rparr>"
  define rejection where "rejection = (if dict_contains ''error'' b \<or> \<not> dict_contains ''arn'' b
                          then response_403 else response_500)"
  have main: "lambda_handler env' rnd event =
      (get_store env' (str_get_default (case h of None \<Rightarrow> [] | Some x \<Rightarrow> x) ''Cookie'' []),
       Inr rejection)"
    if "get_discovery_document env' = Inr dd" and "parse_body env' body = Inr (VDict b)" for env'
    using that handle_post_roles_missing [OF assms(1)]
    by (simp add: lambda_handler_def Let_def dispatch_def event_def rejection_def)
  have same: "parse_body (env\<lparr>get_aws_federation_url := f, convert_account_alias := a\<rparr>) body =
              parse_body env body" for f a
    by (simp add: parse_body_def cong: sum.case_cong)
  have r: "dict_get rejection ''headers'' = VDict [(''Content-Type'', VStr ''text/html'')]"
          "dict_get rejection ''statusCode'' = VInt 403 \<or> dict_get rejection ''statusCode'' = VInt 500"
    by (simp_all add: rejection_def dict_get_def response_403_def response_500_def)
  show ?thesis
    unfolding Let_def event_def [symmetric] rejection_def [symmetric]
    using main [of env] main [of "env\<lparr>get_aws_federation_url := f, convert_account_alias := a\<rparr>" for f a]
      r assms(2,3)
    by (simp add: same)
qed


text \<open>
  C5 says that a role-pick request missing one of \<^verbatim>\<open>arn\<close>, \<^verbatim>\<open>alias\<close> and \<^verbatim>\<open>role\<close> is
  rejected by validation before any resolution. Line 332 validates \<^verbatim>\<open>arn\<close> only. For
  a body with \<^verbatim>\<open>arn\<close> and without \<^verbatim>\<open>alias\<close> nothing is validated: reading
  \<^verbatim>\<open>parsed_body['alias']\<close> raises \<open>KeyError\<close> and the request gets the generic response
  500 of the catch-all, not the 403 that a body without \<^verbatim>\<open>arn\<close> gets. The session is
  left as it was.
\<close>

theorem role_pick_without_alias_answers_500:
  "parse_body arn_only_env (Some arn_only_body) = Inr (VDict arn_only) \<and>
   dict_contains ''arn'' arn_only \<and> \<not> dict_contains ''alias'' arn_only \<and>
   lambda_handler arn_only_env zero_entropy
     (example_event ''/api/roles'' ''POST'' ''session=console'' arn_only_body) =
     (console_session, Inr response_500) \<and>
   dict_get response_500 ''statusCode'' = VInt 500"
proof -
  have p: "parse_body arn_only_env (Some arn_only_body) = Inr (VDict arn_only)"
    by (simp add: parse_body_def arn_only_body_def is_ascii_def b64_std_alphabet_def
          variant_env_fields)
  have c: "dict_contains ''arn'' arn_only" "\<not> dict_contains ''alias'' arn_only"
          "\<not> dict_contains ''error'' arn_only"
    by (simp_all add: dict_contains_def arn_only_def)
  have h: "handle_post_roles arn_only_env example_discovery console_session (VDict arn_only)
             ''203.0.113.7'' = (console_session, Inl (KeyError ''alias''))"
    using c by (simp add: handle_post_roles_missing)
  show ?thesis
    using p c
    by (simp add: lambda_handler_def example_event_def Let_def str_get_default_def
          variant_env_fields example_sessions dispatch_def split_comma_first_def h)
       (simp add: dict_get_def response_500_def)
qed

subsection \<open>Role requests without a session\<close>

text \<open>
  C6, as stated, fails on the code, for the role listing and for the role pick. A role
  listing (GET \<^verbatim>\<open>/api/roles\<close>) that arrives without a cookie reads
  \<^verbatim>\<open>store['id_token']\<close> from the empty session; the \<open>KeyError\<close> is caught by the
  handler's \<^verbatim>\<open>except Exception\<close> and the answer is the generic response 500 with the
  body \<^verbatim>\<open>Error\<close>. A role pick (POST \<^verbatim>\<open>/api/roles\<close>) that arrives without a cookie and
  with a complete selection is not checked for a session either: the federation is
  called on a session without an ID token, and when the helper reads the token with
  \<^verbatim>\<open>store['id_token']\<close> the \<open>KeyError\<close> gets the generic response 500 as well.
  Neither is a 4xx rejection nor an error workflow state.
\<close>

theorem role_requests_empty_session_counterexample:
  "get_store example_env [] = [] \<and>
   lambda_handler example_env zero_entropy (anonymous_event ''/api/roles'' ''GET'' VNone) =
     ([], Inr response_500) \<and>
   get_store indexing_federation_env [] = [] \<and>
   lambda_handler indexing_federation_env zero_entropy
     (anonymous_event ''/api/roles'' ''POST'' admin_selection_body) =
     ([(''role_account_alias'', VStr ''prod''),
       (''role_arn'', VStr ''arn:aws:iam::111122223333:role/Admin''),
       (''role_name'', VStr ''Admin'')], Inr response_500) \<and>
   dict_get response_500 ''statusCode'' = VInt 500 \<and>
   dict_get response_500 ''body'' = VStr ''Error''"
proof -
  have g: "lambda_handler example_env zero_entropy (anonymous_event ''/api/roles'' ''GET'' VNone) =
     ([], Inr response_500)"
    by (simp add: lambda_handler_def anonymous_event_def Let_def str_get_default_def
        example_env_fields example_get_store_def parse_body_null dispatch_def
        handle_get_roles_def dict_getitem_def)
  have p: "parse_body indexing_federation_env (Some admin_selection_body) =
             Inr (VDict admin_selection)"
    by (simp add: parse_body_def admin_selection_body_def is_ascii_def b64_std_alphabet_def
          variant_env_fields)
  have s: "invalid_post_data (VDict admin_selection) = Inr False"
          "role_selection (VDict admin_selection) =
             Inr [(''role_account_alias'', VStr ''prod''),
                  (''role_arn'', VStr ''arn:aws:iam::111122223333:role/Admin''),
                  (''role_name'', VStr ''Admin'')]"
    by (simp_all add: invalid_post_data_def role_selection_def admin_selection_def
          dict_contains_def dict_getitem_def)
  have "lambda_handler indexing_federation_env zero_entropy
     (anonymous_event ''/api/roles'' ''POST'' admin_selection_body) =
     ([(''role_account_alias'', VStr ''prod''),
       (''role_arn'', VStr ''arn:aws:iam::111122223333:role/Admin''),
       (''role_name'', VStr ''Admin'')], Inr response_500)"
    by (simp add: lambda_handler_def anonymous_event_def Let_def str_get_default_def
          variant_env_fields example_sessions p dispatch_def handle_post_roles_def s
          dict_update_def pick_role_def indexing_federation_def dict_getitem_def)
  with g show ?thesis
    by (simp add: example_env_fields variant_env_fields example_sessions dict_get_def
          response_500_def)
qed

text \<open>
  C6, amended. With an empty session, a role listing is answered with the generic
  response 500, the store still empty and no cookie set. A role pick whose body is a
  dictionary with \<^verbatim>\<open>arn\<close>, \<^verbatim>\<open>alias\<close> and \<^verbatim>\<open>role\<close> and without \<^verbatim>\<open>error\<close> is not
  rejected by the handler: the selection is stored in the empty session and the
  federation is called on it. When the federation raises \<open>AccessDenied\<close> and the
  lookup of the user's name for the log line, called without a token, returns, the
  answer is the session in the error workflow state with the fixed \<^verbatim>\<open>Access denied\<close>;
  when the federation raises an exception of another class, the answer is the generic
  response 500.
\<close>

theorem empty_session_role_requests:
  assumes "get_discovery_document env = Inr dd"
      and "get_store env (str_get_default (case h of None \<Rightarrow> [] | Some x \<Rightarrow> x) ''Cookie'' []) = []"
      and "parse_body env body = Inr parsed_body"
  shows "lambda_handler env rnd
           \<lparr>ev_path = ''/api/roles'', ev_httpMethod = ''GET'', ev_headers = h,
            ev_queryStringParameters = q, ev_body = body\<rparr> = ([], Inr response_500) \<and>
         (\<forall>b arn acct role.
            parsed_body = VDict b \<and> \<not> dict_contains ''error'' b \<and> map_of b ''arn'' = Some arn \<and>
            map_of b ''alias'' = Some acct \<and> map_of b ''role'' = Some role \<longrightarrow>
            (let selection = [(''role_account_alias'', acct), (''role_arn'', arn), (''role_name'', role)];
                 denied = dict_set (dict_set selection ''client_workflow_state'' (VStr ''error''))
                            ''client_workflow_value'' (VDict [(''message'', VStr ''Access denied'')]);
                 pick = lambda_handler env rnd
                          \<lparr>ev_path = ''/api/roles'', ev_httpMethod = ''POST'', ev_headers = h,
                           ev_queryStringParameters = q, ev_body = body\<rparr>
             in (\<forall>m who. get_aws_federation_url env (jwks dd) selection = Inl (AccessDenied m) \<and>
                          get_email_or_username env (jwks dd) VNone = Inr who \<longrightarrow>
                     pick = (denied, Inr (return_api_gateway_json env (Some denied) None)) \<and>
                     dict_get denied ''client_workflow_state'' = VStr ''error'') \<and>
                (\<forall>e. get_aws_federation_url env (jwks dd) selection = Inl e \<and>
                      \<not> is_AccessDenied e \<longrightarrow> pick = (selection, Inr response_500))))"
proof -
  have get: "handle_get_roles env [] = ([], Inl (KeyError ''id_token''))"
    by (simp add: handle_get_roles_def dict_getitem_def)
  have sel: "role_selection (VDict b) =
               Inr [(''role_account_alias'', acct), (''role_arn'', arn), (''role_name'', role)]"
            "invalid_post_data (VDict b) = Inr False"
    if "\<not> dict_contains ''error'' b" "map_of b ''arn'' = Some arn" "map_of b ''alias'' = Some acct"
       "map_of b ''role'' = Some role" for b arn acct role
    using that
    by (simp_all add: role_selection_def invalid_post_data_def dict_getitem_def dict_contains_map_of)
  have upd: "dict_update [] [(''role_account_alias'', acct), (''role_arn'', arn), (''role_name'', role)]
               = [(''role_account_alias'', acct), (''role_arn'', arn), (''role_name'', role)]"
    for arn acct role
    by (simp add: dict_update_def)
  have idt: "dict_get [(''role_account_alias'', acct), (''role_arn'', arn), (''role_name'', role)]
               ''id_token'' = VNone" for arn acct role
    by (simp add: dict_get_def)
  show ?thesis
    using assms
    apply (simp add: lambda_handler_def Let_def dispatch_def get)
    apply (intro allI impI conjI)
     apply (auto simp: handle_post_roles_def sel upd pick_role_def Let_def access_denied_value_def
                       dict_get_set idt)
    done
qed

theorem empty_session_role_requests_witness:
  "get_discovery_document example_env = Inr example_discovery \<and>
   get_store example_env [] = [] \<and>
   lambda_handler (example_env\<lparr>json_loads := (\<lambda>bs. Inr (VDict admin_selection))\<rparr>) zero_entropy
     (anonymous_event ''/api/roles'' ''POST'' (VStr ''eyJhcm4iOiAiYXJuOmF3czppYW06OjExMTEyMjIyMzMzMzpyb2xlL0FkbWluIiwgImFsaWFzIjogInByb2QiLCAicm9sZSI6ICJBZG1pbiJ9'')) =
     (let denied =
        [(''role_account_alias'', VStr ''prod''),
         (''role_arn'', VStr ''arn:aws:iam::111122223333:role/Admin''),
         (''role_name'', VStr ''Admin''),
         (''client_workflow_state'', VStr ''error''),
         (''client_workflow_value'', VDict [(''message'', VStr ''Access denied'')])]
      in (denied, Inr (example_json (Some denied) None)))"
proof -
  let ?env = "example_env\<lparr>json_loads := (\<lambda>bs. Inr (VDict admin_selection))\<rparr>"
  let ?sel = "[(''role_account_alias'', VStr ''prod''),
               (''role_arn'', VStr ''arn:aws:iam::111122223333:role/Admin''),
               (''role_name'', VStr ''Admin'')]"
  have h1: "get_discovery_document ?env = Inr example_discovery"
    by (simp add: example_env_fields)
  have h2: "get_store ?env (str_get_default (case None of None \<Rightarrow> [] | Some x \<Rightarrow> x) ''Cookie'' []) = []"
    by (simp add: example_env_fields example_get_store_def str_get_default_def)
  have h3: "parse_body ?env (Some (VStr ''eyJhcm4iOiAiYXJuOmF3czppYW06OjExMTEyMjIyMzMzMzpyb2xlL0FkbWluIiwgImFsaWFzIjogInByb2QiLCAicm9sZSI6ICJBZG1pbiJ9'')) = Inr (VDict admin_selection)"
    by (simp add: parse_body_def is_ascii_def b64_std_alphabet_def)
  have b: "\<not> dict_contains ''error'' admin_selection"
          "map_of admin_selection ''arn'' = Some (VStr ''arn:aws:iam::111122223333:role/Admin'')"
          "map_of admin_selection ''alias'' = Some (VStr ''prod'')"
          "map_of admin_selection ''role'' = Some (VStr ''Admin'')"
    by (simp_all add: admin_selection_def dict_contains_def)
  have f: "get_aws_federation_url ?env (jwks example_discovery) ?sel =
             Inl (AccessDenied ''role assumption rejected'')"
          "get_email_or_username ?env (jwks example_discovery) VNone = Inr ''user@example.com''"
          "return_api_gateway_json ?env = example_json"
    by (simp_all add: example_env_fields example_federation_def dict_get_def)
  have "lambda_handler ?env zero_entropy
          \<lparr>ev_path = ''/api/roles'', ev_httpMethod = ''POST'', ev_headers = None,
           ev_queryStringParameters = None, ev_body = Some (VStr ''eyJhcm4iOiAiYXJuOmF3czppYW06OjExMTEyMjIyMzMzMzpyb2xlL0FkbWluIiwgImFsaWFzIjogInByb2QiLCAicm9sZSI6ICJBZG1pbiJ9'')\<rparr> =
        (let denied = dict_set (dict_set ?sel ''client_workflow_state'' (VStr ''error''))
                        ''client_workflow_value'' (VDict [(''message'', VStr ''Access denied'')])
         in (denied, Inr (example_json (Some denied) None)))"
    using empty_session_role_requests [OF h1 h2 h3, where rnd = zero_entropy and q = None] b f
    by (simp add: Let_def)
  then show ?thesis
    using h1
    by (simp add: anonymous_event_def Let_def dict_set_def example_env_fields example_get_store_def)
qed

subsection \<open>Request bodies that do not parse\<close>

text \<open>
  The part of C9 that the code does: when decoding or parsing fails with
  \<open>JSONDecodeError\<close> or \<open>TypeError\<close>, the parsed body is the error record, and a POST to
  \<^verbatim>\<open>/api/roles\<close> is answered 403 with the store unchanged.
\<close>

lemma unparsable_body_rejected:
  assumes "get_discovery_document env = Inr dd"
      and "(case b64decode (case body of None \<Rightarrow> VStr [] | Some v \<Rightarrow> v) of
              Inl e \<Rightarrow> Inl e | Inr decoded \<Rightarrow> json_loads env decoded) = Inl e"
      and "catches_parse_error e"
  shows "parse_body env body =
           Inr (VDict [(''error'', VStr ''Unable to parse POST data''),
                       (''body'', (case body of None \<Rightarrow> VNone | Some v \<Rightarrow> v)),
                       (''exception'', VStr (exn_str e))])"
    and "lambda_handler env rnd
           \<lparr>ev_path = ''/api/roles'', ev_httpMethod = ''POST'', ev_headers = h,
            ev_queryStringParameters = q, ev_body = body\<rparr> =
         (get_store env (str_get_default (case h of None \<Rightarrow> [] | Some x \<Rightarrow> x) ''Cookie'' []),
          Inr response_403)"
proof -
  show p: "parse_body env body =
           Inr (VDict [(''error'', VStr ''Unable to parse POST data''),
                       (''body'', (case body of None \<Rightarrow> VNone | Some v \<Rightarrow> v)),
                       (''exception'', VStr (exn_str e))])"
    using assms(2,3) by (simp add: parse_body_def)
  show "lambda_handler env rnd
           \<lparr>ev_path = ''/api/roles'', ev_httpMethod = ''POST'', ev_headers = h,
            ev_queryStringParameters = q, ev_body = body\<rparr> =
         (get_store env (str_get_default (case h of None \<Rightarrow> [] | Some x \<Rightarrow> x) ''Cookie'' []),
          Inr response_403)"
    using assms(1)
    by (simp add: lambda_handler_def Let_def p dispatch_def handle_post_roles_def
          invalid_post_data_def dict_contains_def)
qed

text \<open>A body that is not base64 at all: one data character. \<^verbatim>\<open>b64decode\<close> raises
  \<^verbatim>\<open>binascii.Error\<close>, which the \<^verbatim>\<open>except\<close> clause of line 279 does not name, and the
  parsing is outside the \<^verbatim>\<open>try\<close> block of line 284.\<close>

lemma invalid_base64_body_raises:
  assumes "get_discovery_document env = Inr dd"
  shows "snd (lambda_handler env rnd
           \<lparr>ev_path = p, ev_httpMethod = m, ev_headers = h, ev_queryStringParameters = q,
            ev_body = Some (VStr ''a'')\<rparr>) =
         Inl (BinasciiError ''Invalid base64-encoded string: number of data characters cannot be 1 more than a multiple of 4'')"
  using assms
  by (simp add: lambda_handler_def Let_def parse_body_def is_ascii_def b64_std_alphabet_def)

text \<open>
  C9 says that for every body that is not valid base64-encoded JSON the parsing does not
  raise past the handler and a role pick is answered 403. For the body \<^verbatim>\<open>a\<close> the code
  does otherwise: the handler raises \<^verbatim>\<open>binascii.Error\<close> and returns no response.
\<close>

theorem invalid_base64_body_escapes:
  "lambda_handler example_env zero_entropy
     (example_event ''/api/roles'' ''POST'' ''session=console'' (VStr ''a'')) =
     (console_session,
      Inl (BinasciiError ''Invalid base64-encoded string: number of data characters cannot be 1 more than a multiple of 4''))"
  by (simp add: lambda_handler_def example_event_def Let_def str_get_default_def
        example_env_fields example_get_store_def parse_body_def is_ascii_def b64_std_alphabet_def)

subsection \<open>Starting the flow: the cookie record and the redirect\<close>

text \<open>\<^verbatim>\<open>store.update(stored_vars)\<close> as a map: the stored variables override, the other
  keys stay.\<close>

lemma map_of_dict_update: "map_of (dict_update d e) = map_of d ++ map_of (rev e)"
  unfolding dict_update_def
proof (induction e arbitrary: d)
  case Nil
  then show ?case by simp
next
  case (Cons x xs)
  then show ?case
    by (cases x) (auto simp: update_conv' map_add_def fun_eq_iff split: option.splits)
qed

lemma map_of_rev_distinct: "distinct (map fst xs) \<Longrightarrow> map_of (rev xs) = map_of xs"
  by (subst map_of_inject_set) (simp_all add: rev_map [symmetric])

text \<open>The stored variables of the path \<^verbatim>\<open>/\<close> have four keys at most, none of them a
  key of the record built at line 205; the fields of the cookie record follow.\<close>

lemma start_stored_vars_distinct: "distinct (map fst (start_stored_vars env referer q))"
  by (simp add: start_stored_vars_def Let_def dict_set_def distinct_update split: option.splits)

lemma map_of_start_stored_vars:
  "map_of (start_stored_vars env referer q) =
     (\<lambda>k. if k = ''role_account_alias'' then map_option VStr (map_of q ''account'')
          else if k = ''role_name'' then map_option VStr (map_of q ''role'')
          else if k = ''role_arn'' then
            (if get_role_arn env q \<noteq> VNone then Some (get_role_arn env q) else None)
          else if k = ''destination_url'' then Some (get_destination_url env referer)
          else None)"
  by (auto simp: start_stored_vars_def Let_def dict_set_def update_conv' fun_eq_iff
      split: option.splits)

lemma start_stored_vars_nonempty: "start_stored_vars env referer q \<noteq> []"
  by (simp add: start_stored_vars_def Let_def dict_set_def split: option.splits)

lemma map_of_start_store:
  "map_of (start_store env rnd action (Some (start_stored_vars env referer q)) sd cache) =
     map_of [(''action'', VStr action),
        (''oidc_state'', VStr (oidc_state_of env rnd)),
        (''code_verifier'', VStr (code_verifier_of env rnd)),
        (''session_duration'', (case sd of None \<Rightarrow> VNone | Some n \<Rightarrow> VInt n)),
        (''cache'', VBool cache),
        (''client_workflow_state'', VNone),
        (''client_workflow_value'', VNone)] ++ map_of (start_stored_vars env referer q)"
  by (simp add: start_store_def Let_def start_stored_vars_nonempty map_of_dict_update
        map_of_rev_distinct start_stored_vars_distinct del: map_of.simps)

lemma start_store_fields:
  fixes env rnd action referer q sd cache
  defines "store \<equiv> start_store env rnd action (Some (start_stored_vars env referer q)) sd cache"
  shows "dict_get store ''action'' = VStr action"
    and "dict_get store ''oidc_state'' = VStr (oidc_state_of env rnd)"
    and "dict_get store ''code_verifier'' = VStr (code_verifier_of env rnd)"
    and "dict_get store ''session_duration'' = (case sd of None \<Rightarrow> VNone | Some n \<Rightarrow> VInt n)"
    and "dict_get store ''cache'' = VBool cache"
    and "dict_get store ''client_workflow_state'' = VNone"
    and "dict_get store ''client_workflow_value'' = VNone"
    and "dict_get store ''destination_url'' = get_destination_url env referer"
    and "dict_get store ''role_arn'' = get_role_arn env q"
    and "dict_get store ''role_name'' = (case map_of q ''role'' of None \<Rightarrow> VNone | Some r \<Rightarrow> VStr r)"
    and "dict_get store ''role_account_alias'' =
           (case map_of q ''account'' of None \<Rightarrow> VNone | Some a \<Rightarrow> VStr a)"
  unfolding store_def dict_get_def map_of_start_store map_of_start_stored_vars
  by (simp_all add: map_add_def split: option.splits)

lemma handle_start_response:
  assumes "get_discovery_document env = Inr dd"
      and "py_int env (case map_of q ''session_duration'' of
                         None \<Rightarrow> default_session_duration (CONFIG env) | Some s \<Rightarrow> VStr s) = Inr n"
  shows "handle_start env rnd referer q =
     Inr [(''statusCode'', VInt 302),
          (''headers'', VDict
             [(''Location'', VStr (urlunparse env
                 ((urlparse env (authorization_endpoint dd))
                    \<lparr>query := urlencode (url_parameters env rnd)\<rparr>))),
              (''Content-Type'', VStr ''text/html''),
              (''Cache-Control'', VStr ''max-age=0''),
              (''Set-Cookie'', VStr (set_cookie env
                 (start_store env rnd (str_get_default q ''action'' ''aws-web-console'')
                    (Some (start_stored_vars env referer q)) (Some n) (start_cache q))
                 ''; Secure; SameSite=Lax; HttpOnly; Path=/; Max-Age=3600''))]),
          (''body'', VStr ''Redirecting to identity provider'')]"
  using assms by (simp add: handle_start_def redirect_to_idp_def Let_def)



text \<open>The query string of the authorization request, written out.\<close>

lemma quote_plus_keys:
  "quote_plus ''scope'' = ''scope''"
  "quote_plus ''response_type'' = ''response_type''"
  "quote_plus ''code'' = ''code''"
  "quote_plus ''redirect_uri'' = ''redirect_uri''"
  "quote_plus ''client_id'' = ''client_id''"
  "quote_plus ''code_challenge'' = ''code_challenge''"
  "quote_plus ''code_challenge_method'' = ''code_challenge_method''"
  "quote_plus ''S256'' = ''S256''"
  "quote_plus ''state'' = ''state''"
  by (simp_all add: quote_plus_def quote_char_def always_safe_def)

lemma urlencode_url_parameters:
  "urlencode (url_parameters env rnd) =
     ''scope='' @ quote_plus (oidc_scope (CONFIG env)) @
     ''&response_type=code&redirect_uri='' @ quote_plus (redirect_uri (CONFIG env)) @
     ''&client_id='' @ quote_plus (client_id (CONFIG env)) @
     ''&code_challenge='' @ quote_plus (code_challenge_of env rnd) @
     ''&code_challenge_method=S256&state='' @ quote_plus (oidc_state_of env rnd)"
  by (simp add: urlencode_def url_parameters_def quote_plus_keys)

subsection \<open>Base64 without padding\<close>


















subsection \<open>The cache flag\<close>












subsection \<open>The start transition\<close>

lemma example_start_record:
  "start_store example_env counting_entropy ''aws-web-console''
     (Some [(''destination_url'', VNone)]) (Some 43200) True =
   [(''action'', VStr ''aws-web-console''),
    (''oidc_state'', VStr ''1-ICEiIyQlJicoKSorLC0uLzAxMjM0NTY3ODk6Ozw9Pj8''),
    (''code_verifier'', VStr ''AAECAwQFBgcICQoLDA0ODxAREhMUFRYXGBkaGxwdHh8''),
    (''session_duration'', VInt 43200), (''cache'', VBool True),
    (''client_workflow_state'', VNone), (''client_workflow_value'', VNone),
    (''destination_url'', VNone)]"
  by code_simp

lemma example_start_query:
  "start_stored_vars example_env [] [] = [(''destination_url'', VNone)]"
  "start_cache []"
  "str_get_default [] ''action'' ''aws-web-console'' = ''aws-web-console''"
  "py_int example_env (default_session_duration (CONFIG example_env)) = Inr 43200"
  "py_int example_env (VStr ''abc'') = Inl (ValueError ''invalid literal for int() with base 10'')"
  by (simp_all add: start_stored_vars_def example_env_fields start_cache_def str_get_default_def
        lower_def lower_char_def example_config_def)

text \<open>
  C4, as stated, fails on the code. The record that \<^verbatim>\<open>redirect_to_idp\<close> builds at line
  205 and sets as the cookie holds \<^verbatim>\<open>client_workflow_state\<close> and
  \<^verbatim>\<open>client_workflow_value\<close> as \<^verbatim>\<open>None\<close>: after the start the workflow state is still
  null, not \<^verbatim>\<open>redirecting\<close>. And a start whose \<^verbatim>\<open>session_duration\<close> is not a number
  emits neither a cookie nor a redirect: \<^verbatim>\<open>int\<close> raises, and the handler answers 500.
\<close>

theorem start_state_counterexample:
  "lambda_handler example_env counting_entropy (start_event []) =
     ([], Inr [(''statusCode'', VInt 302),
               (''headers'', VDict
                  [(''Location'', VStr (urlunparse example_env
                      ((urlparse example_env (authorization_endpoint example_discovery))
                         \<lparr>query := urlencode (url_parameters example_env counting_entropy)\<rparr>))),
                   (''Content-Type'', VStr ''text/html''),
                   (''Cache-Control'', VStr ''max-age=0''),
                   (''Set-Cookie'', VStr (set_cookie example_env
                      [(''action'', VStr ''aws-web-console''),
                       (''oidc_state'', VStr ''1-ICEiIyQlJicoKSorLC0uLzAxMjM0NTY3ODk6Ozw9Pj8''),
                       (''code_verifier'', VStr ''AAECAwQFBgcICQoLDA0ODxAREhMUFRYXGBkaGxwdHh8''),
                       (''session_duration'', VInt 43200), (''cache'', VBool True),
                       (''client_workflow_state'', VNone), (''client_workflow_value'', VNone),
                       (''destination_url'', VNone)]
                      ''; Secure; SameSite=Lax; HttpOnly; Path=/; Max-Age=3600''))]),
               (''body'', VStr ''Redirecting to identity provider'')]) \<and>
   dict_get [(''action'', VStr ''aws-web-console''),
             (''oidc_state'', VStr ''1-ICEiIyQlJicoKSorLC0uLzAxMjM0NTY3ODk6Ozw9Pj8''),
             (''code_verifier'', VStr ''AAECAwQFBgcICQoLDA0ODxAREhMUFRYXGBkaGxwdHh8''),
             (''session_duration'', VInt 43200), (''cache'', VBool True),
             (''client_workflow_state'', VNone), (''client_workflow_value'', VNone),
             (''destination_url'', VNone)] ''client_workflow_state'' = VNone \<and>
   lambda_handler example_env counting_entropy (start_event [(''session_duration'', ''abc'')]) =
     ([], Inr response_500)"
proof -
  have h: "get_discovery_document example_env = Inr example_discovery"
    by (simp add: example_env_fields)
  have ok: "handle_start example_env counting_entropy [] [] =
     Inr [(''statusCode'', VInt 302),
               (''headers'', VDict
                  [(''Location'', VStr (urlunparse example_env
                      ((urlparse example_env (authorization_endpoint example_discovery))
                         \<lparr>query := urlencode (url_parameters example_env counting_entropy)\<rparr>))),
                   (''Content-Type'', VStr ''text/html''),
                   (''Cache-Control'', VStr ''max-age=0''),
                   (''Set-Cookie'', VStr (set_cookie example_env
                      [(''action'', VStr ''aws-web-console''),
                       (''oidc_state'', VStr ''1-ICEiIyQlJicoKSorLC0uLzAxMjM0NTY3ODk6Ozw9Pj8''),
                       (''code_verifier'', VStr ''AAECAwQFBgcICQoLDA0ODxAREhMUFRYXGBkaGxwdHh8''),
                       (''session_duration'', VInt 43200), (''cache'', VBool True),
                       (''client_workflow_state'', VNone), (''client_workflow_value'', VNone),
                       (''destination_url'', VNone)]
                      ''; Secure; SameSite=Lax; HttpOnly; Path=/; Max-Age=3600''))]),
               (''body'', VStr ''Redirecting to identity provider'')]"
    using handle_start_response [OF h, of "[]" 43200 counting_entropy "[]"]
    by (simp add: example_start_query example_start_record)
  have bad: "handle_start example_env counting_entropy [] [(''session_duration'', ''abc'')] =
     Inl (ValueError ''invalid literal for int() with base 10'')"
    by (simp add: handle_start_def Let_def example_env_fields)
  show ?thesis
    by (simp add: lambda_handler_def start_event_def Let_def str_get_default_def h
          example_env_fields example_sessions parse_body_null dispatch_def ok bad)
       (simp add: dict_get_def)
qed

text \<open>Which of the optional keys the cookie record of the start has.\<close>

lemma start_store_keys:
  fixes env rnd action referer q sd cache
  defines "store \<equiv> start_store env rnd action (Some (start_stored_vars env referer q)) sd cache"
  shows "dict_contains ''role_arn'' store \<longleftrightarrow> get_role_arn env q \<noteq> VNone"
    and "dict_contains ''role_name'' store \<longleftrightarrow> map_of q ''role'' \<noteq> None"
    and "dict_contains ''role_account_alias'' store \<longleftrightarrow> map_of q ''account'' \<noteq> None"
  unfolding store_def dict_contains_map_of map_of_start_store map_of_start_stored_vars
  by (simp_all add: map_add_def split: option.splits)

text \<open>
  C4, amended. For a request for \<^verbatim>\<open>/\<close>: when the \<^verbatim>\<open>session_duration\<close> parameter or,
  in its absence, the configured default converts to an integer, the start leaves the
  handler's store as it is, sets a cookie record in which \<^verbatim>\<open>client_workflow_state\<close>
  and \<^verbatim>\<open>client_workflow_value\<close> are null and which carries the chosen action (by
  default \<^verbatim>\<open>aws-web-console\<close>), the destination URL, the pre-selected role ARN, role
  name and account alias when the request has them, the session duration, the cache
  flag, and the OIDC state and the code verifier generated in this step, and answers
  302 with the authorization endpoint as location, its query string being \<^verbatim>\<open>scope\<close>,
  \<^verbatim>\<open>response_type=code\<close>, \<^verbatim>\<open>redirect_uri\<close>, \<^verbatim>\<open>client_id\<close>, \<^verbatim>\<open>code_challenge\<close>,
  \<^verbatim>\<open>code_challenge_method=S256\<close> and \<^verbatim>\<open>state\<close>, in this order. When the conversion
  raises, the start raises the same exception and sets nothing. The workflow state
  becomes \<^verbatim>\<open>redirecting\<close> on the request for \<^verbatim>\<open>/redirect_uri\<close>, which sets it in the
  decoded session and sets that session as the cookie. The discovery document is the
  one the handler has read.
\<close>

theorem start_transition:
  assumes "get_discovery_document env = Inr dd"
  shows "let duration = py_int env (case map_of q ''session_duration'' of
                                     None \<Rightarrow> default_session_duration (CONFIG env)
                                   | Some s \<Rightarrow> VStr s);
             start = dispatch env rnd dd store ''/'' method cookie_header referer source_ip q
                       parsed_body
         in (\<forall>e. duration = Inl e \<longrightarrow> start = (store, Inl e)) \<and>
            (\<forall>n. duration = Inr n \<longrightarrow>
               (let record = start_store env rnd (str_get_default q ''action'' ''aws-web-console'')
                               (Some (start_stored_vars env referer q)) (Some n) (start_cache q)
                in start =
                     (store,
                      Inr [(''statusCode'', VInt 302),
                           (''headers'', VDict
                              [(''Location'', VStr (urlunparse env
                                  ((urlparse env (authorization_endpoint dd))
                                     \<lparr>query :=
                                        ''scope='' @ quote_plus (oidc_scope (CONFIG env)) @
                                        ''&response_type=code&redirect_uri='' @
                                        quote_plus (redirect_uri (CONFIG env)) @
                                        ''&client_id='' @ quote_plus (client_id (CONFIG env)) @
                                        ''&code_challenge='' @
                                        quote_plus (code_challenge_of env rnd) @
                                        ''&code_challenge_method=S256&state='' @
                                        quote_plus (oidc_state_of env rnd)\<rparr>))),
                               (''Content-Type'', VStr ''text/html''),
                               (''Cache-Control'', VStr ''max-age=0''),
                               (''Set-Cookie'', VStr (set_cookie env record
                                  ''; Secure; SameSite=Lax; HttpOnly; Path=/; Max-Age=3600''))]),
                           (''body'', VStr ''Redirecting to identity provider'')]) \<and>
                   dict_get record ''client_workflow_state'' = VNone \<and>
                   dict_get record ''client_workflow_value'' = VNone \<and>
                   dict_get record ''action'' = VStr (str_get_default q ''action'' ''aws-web-console'') \<and>
                   dict_get record ''destination_url'' = get_destination_url env referer \<and>
                   dict_get record ''role_arn'' = get_role_arn env q \<and>
                   (dict_contains ''role_arn'' record \<longleftrightarrow> get_role_arn env q \<noteq> VNone) \<and>
                   dict_get record ''role_name'' =
                     (case map_of q ''role'' of None \<Rightarrow> VNone | Some r \<Rightarrow> VStr r) \<and>
                   (dict_contains ''role_name'' record \<longleftrightarrow> map_of q ''role'' \<noteq> None) \<and>
                   dict_get record ''role_account_alias'' =
                     (case map_of q ''account'' of None \<Rightarrow> VNone | Some a \<Rightarrow> VStr a) \<and>
                   (dict_contains ''role_account_alias'' record \<longleftrightarrow> map_of q ''account'' \<noteq> None) \<and>
                   dict_get record ''session_duration'' = VInt n \<and>
                   dict_get record ''cache'' = VBool (start_cache q) \<and>
                   dict_get record ''oidc_state'' = VStr (oidc_state_of env rnd) \<and>
                   dict_get record ''code_verifier'' = VStr (code_verifier_of env rnd))) \<and>
            dispatch env rnd dd store ''/redirect_uri'' method cookie_header referer source_ip q
                parsed_body =
              (dict_set store ''client_workflow_state'' (VStr ''redirecting''),
               Inr [(''statusCode'', VInt 200),
                    (''headers'', VDict
                       [(''Content-Type'', VStr ''text/html''),
                        (''Set-Cookie'', VStr (set_cookie env
                           (dict_set store ''client_workflow_state'' (VStr ''redirecting''))
                           ''; Secure; HttpOnly; Path=/; Max-Age=3600; SameSite=strict''))]),
                    (''body'', read_resource env ''/index.html'')])"
proof -
  have raise: "dispatch env rnd dd store ''/'' method cookie_header referer source_ip q parsed_body =
                 (store, Inl e)"
    if "py_int env (case map_of q ''session_duration'' of
                      None \<Rightarrow> default_session_duration (CONFIG env) | Some s \<Rightarrow> VStr s) = Inl e" for e
    using that by (simp add: dispatch_def handle_start_def Let_def)
  have ret: "dispatch env rnd dd store ''/'' method cookie_header referer source_ip q parsed_body =
       (store,
        Inr [(''statusCode'', VInt 302),
             (''headers'', VDict
                [(''Location'', VStr (urlunparse env
                    ((urlparse env (authorization_endpoint dd))
                       \<lparr>query :=
                          ''scope='' @ quote_plus (oidc_scope (CONFIG env)) @
                          ''&response_type=code&redirect_uri='' @
                          quote_plus (redirect_uri (CONFIG env)) @
                          ''&client_id='' @ quote_plus (client_id (CONFIG env)) @
                          ''&code_challenge='' @
                          quote_plus (code_challenge_of env rnd) @
                          ''&code_challenge_method=S256&state='' @
                          quote_plus (oidc_state_of env rnd)\<rparr>))),
                 (''Content-Type'', VStr ''text/html''),
                 (''Cache-Control'', VStr ''max-age=0''),
                 (''Set-Cookie'', VStr (set_cookie env
                    (start_store env rnd (str_get_default q ''action'' ''aws-web-console'')
                       (Some (start_stored_vars env referer q)) (Some n) (start_cache q))
                    ''; Secure; SameSite=Lax; HttpOnly; Path=/; Max-Age=3600''))]),
             (''body'', VStr ''Redirecting to identity provider'')])"
    if "py_int env (case map_of q ''session_duration'' of
                      None \<Rightarrow> default_session_duration (CONFIG env) | Some s \<Rightarrow> VStr s) = Inr n" for n
    using handle_start_response [OF assms that, of rnd referer]
    by (simp add: dispatch_def urlencode_url_parameters)
  have uri: "dispatch env rnd dd store ''/redirect_uri'' method cookie_header referer source_ip q
                parsed_body =
              (dict_set store ''client_workflow_state'' (VStr ''redirecting''),
               Inr [(''statusCode'', VInt 200),
                    (''headers'', VDict
                       [(''Content-Type'', VStr ''text/html''),
                        (''Set-Cookie'', VStr (set_cookie env
                           (dict_set store ''client_workflow_state'' (VStr ''redirecting''))
                           ''; Secure; HttpOnly; Path=/; Max-Age=3600; SameSite=strict''))]),
                    (''body'', read_resource env ''/index.html'')])"
    by (simp add: dispatch_def Let_def)
  show ?thesis
    unfolding Let_def
    using raise ret uri start_store_fields [of env rnd _ referer q] start_store_keys [of env rnd _ referer q]
    by (intro conjI allI impI) simp_all
qed

theorem start_transition_witness:
  "get_discovery_document example_env = Inr example_discovery \<and>
   py_int example_env (case map_of [(''role'', ''Admin''), (''account'', ''prod'')] ''session_duration'' of
                         None \<Rightarrow> default_session_duration (CONFIG example_env)
                       | Some s \<Rightarrow> VStr s) = Inr 43200 \<and>
   (let record = start_store example_env counting_entropy ''aws-web-console''
                   (Some (start_stored_vars example_env [] [(''role'', ''Admin''), (''account'', ''prod'')]))
                   (Some 43200) True
    in dict_get record ''client_workflow_state'' = VNone \<and>
       dict_get record ''role_name'' = VStr ''Admin'' \<and>
       dict_get record ''role_account_alias'' = VStr ''prod'' \<and>
       dict_get record ''session_duration'' = VInt 43200 \<and>
       dict_get record ''cache'' = VBool True \<and>
       fst (dispatch example_env counting_entropy example_discovery [] ''/'' ''GET'' [] []
              ''unknown'' [(''role'', ''Admin''), (''account'', ''prod'')] VNone) = [])"
proof -
  let ?q = "[(''role'', ''Admin''), (''account'', ''prod'')]"
  have h: "get_discovery_document example_env = Inr example_discovery"
    by (simp add: example_env_fields)
  have i: "py_int example_env (case map_of ?q ''session_duration'' of
                         None \<Rightarrow> default_session_duration (CONFIG example_env)
                       | Some s \<Rightarrow> VStr s) = Inr 43200"
    by (simp add: example_env_fields example_config_def)
  have c: "start_cache ?q" "str_get_default ?q ''action'' ''aws-web-console'' = ''aws-web-console''"
    by (simp_all add: start_cache_def str_get_default_def lower_def lower_char_def)
  note t = start_transition [OF h, of ?q counting_entropy "[]" "''GET''" "[]" "[]" "''unknown''" VNone]
  from t i have
    "let record = start_store example_env counting_entropy
                    (str_get_default ?q ''action'' ''aws-web-console'')
                    (Some (start_stored_vars example_env [] ?q)) (Some 43200) (start_cache ?q)
     in dict_get record ''client_workflow_state'' = VNone \<and>
        dict_get record ''role_name'' = VStr ''Admin'' \<and>
        dict_get record ''role_account_alias'' = VStr ''prod'' \<and>
        dict_get record ''session_duration'' = VInt 43200 \<and>
        dict_get record ''cache'' = VBool (start_cache ?q) \<and>
        fst (dispatch example_env counting_entropy example_discovery [] ''/'' ''GET'' [] []
               ''unknown'' ?q VNone) = []"
    unfolding Let_def by simp
  then show ?thesis
    using h i c by (simp add: Let_def)
qed

end
